theory Spec2Isabelle
  imports Main "HOL-Library.Char_ord" "HOL-Library.List_Lexorder"
begin

section \<open>JavaScript values, \<open>parseInt\<close> and the currency pattern\<close>

text \<open>
  The webhook body is a JSON object whose fields are probed without any type check
  (\<open>notification.amountDetected\<close>, \<open>notification.amount\<close>, \<open>notification.text\<close>).
  A field is therefore a JavaScript value. Numbers are the integers whose \<open>ToString\<close> is
  their decimal numeral (magnitude below \<open>10^21\<close>) and on which double arithmetic is
  exact; strings are ASCII text. An object or array carries the result of its
  \<open>ToString\<close> conversion (\<open>None\<close> when the conversion itself throws).
\<close>

datatype jsval = JUndefined | JNull | JBool bool | JNum int | JStr string | JObj "string option"

text \<open>A JavaScript number that came out of \<open>parseInt\<close>: an integer or \<open>NaN\<close>.\<close>

datatype number = NaN | Num int

datatype js_error = TypeError | RangeError

fun truthy :: "jsval \<Rightarrow> bool" where
  "truthy JUndefined = False"
| "truthy JNull = False"
| "truthy (JBool b) = b"
| "truthy (JNum n) = (n \<noteq> 0)"
| "truthy (JStr s) = (s \<noteq> [])"
| "truthy (JObj s) = True"

fun show_nat :: "nat \<Rightarrow> string" where
  "show_nat n = (if n < 10 then [''0123456789'' ! n]
                 else show_nat (n div 10) @ [''0123456789'' ! (n mod 10)])"

declare show_nat.simps [simp del]

definition show_int :: "int \<Rightarrow> string" where
  "show_int i = (if i < 0 then CHR ''-'' # show_nat (nat (- i)) else show_nat (nat i))"

fun js_ToString :: "jsval \<Rightarrow> js_error + string" where
  "js_ToString JUndefined = Inr ''undefined''"
| "js_ToString JNull = Inr ''null''"
| "js_ToString (JBool b) = Inr (if b then ''true'' else ''false'')"
| "js_ToString (JNum n) = Inr (show_int n)"
| "js_ToString (JStr s) = Inr s"
| "js_ToString (JObj None) = Inl TypeError"
| "js_ToString (JObj (Some s)) = Inr s"

definition is_space :: "char \<Rightarrow> bool" where
  "is_space c = (c \<in> set [CHR 0x09, CHR 0x0A, CHR 0x0B, CHR 0x0C, CHR 0x0D, CHR 0x20])"

definition is_digit :: "char \<Rightarrow> bool" where
  "is_digit c = (CHR ''0'' \<le> c \<and> c \<le> CHR ''9'')"

definition digit_value :: "char \<Rightarrow> int" where
  "digit_value c = int (of_char c) - 48"

definition is_hex_digit :: "char \<Rightarrow> bool" where
  "is_hex_digit c = (is_digit c \<or> (CHR ''a'' \<le> c \<and> c \<le> CHR ''f'') \<or> (CHR ''A'' \<le> c \<and> c \<le> CHR ''F''))"

definition hex_value :: "char \<Rightarrow> int" where
  "hex_value c = (if is_digit c then digit_value c
                  else if CHR ''a'' \<le> c then int (of_char c) - 87
                  else int (of_char c) - 55)"

text \<open>The longest prefix of radix digits, read as a number; \<open>NaN\<close> when it is empty.\<close>

definition parse_digits :: "int \<Rightarrow> (char \<Rightarrow> bool) \<Rightarrow> (char \<Rightarrow> int) \<Rightarrow> string \<Rightarrow> number" where
  "parse_digits r ok val s =
     (let z = takeWhile ok s
      in if z = [] then NaN else Num (foldl (\<lambda>a c. a * r + val c) 0 z))"

definition strip_sign :: "string \<Rightarrow> int \<times> string" where
  "strip_sign s =
     (case s of
        [] \<Rightarrow> (1, [])
      | c # cs \<Rightarrow> if c = CHR ''-'' then (- 1, cs) else if c = CHR ''+'' then (1, cs) else (1, s))"

definition negate :: "int \<Rightarrow> number \<Rightarrow> number" where
  "negate sign v = (case v of NaN \<Rightarrow> NaN | Num n \<Rightarrow> Num (sign * n))"

text \<open>\<open>parseInt(s, 10)\<close> on a string: leading white space, a sign, decimal digits.\<close>

definition parseInt10 :: "string \<Rightarrow> number" where
  "parseInt10 s =
     (let (sign, t) = strip_sign (dropWhile is_space s)
      in negate sign (parse_digits 10 is_digit digit_value t))"

text \<open>\<open>parseInt(s)\<close> with no radix: as above, but a \<open>0x\<close> prefix selects radix 16.\<close>

definition parseInt :: "string \<Rightarrow> number" where
  "parseInt s =
     (let (sign, t) = strip_sign (dropWhile is_space s)
      in if take 2 t = ''0x'' \<or> take 2 t = ''0X''
         then negate sign (parse_digits 16 is_hex_digit hex_value (drop 2 t))
         else negate sign (parse_digits 10 is_digit digit_value t))"

text \<open>\<open>parseInt(v, 10)\<close> on a value: \<open>ToString\<close> first, which may throw.\<close>

definition js_parseInt10 :: "jsval \<Rightarrow> js_error + number" where
  "js_parseInt10 v = (case js_ToString v of Inl e \<Rightarrow> Inl e | Inr s \<Rightarrow> Inr (parseInt10 s))"

definition is_amount_char :: "char \<Rightarrow> bool" where
  "is_amount_char c = (is_digit c \<or> c = CHR ''.'' \<or> c = CHR '','')"

text \<open>
  \<open>text.match(/Rp\s*([\d\.,]+)/)\<close>: the leftmost \<open>Rp\<close> that is followed, after any
  white space, by at least one digit, dot or comma; the result is capture group 1, the
  longest run of such characters (both quantifiers are greedy, and giving back white
  space never helps because white space is not in the class).
\<close>

fun match_Rp :: "string \<Rightarrow> string option" where
  "match_Rp (a # b # cs) =
     (if a = CHR ''R'' \<and> b = CHR ''p'' \<and> takeWhile is_amount_char (dropWhile is_space cs) \<noteq> []
      then Some (takeWhile is_amount_char (dropWhile is_space cs))
      else match_Rp (b # cs))"
| "match_Rp cs = None"

record notification =
  amountDetected :: jsval
  amount :: jsval
  text_field :: jsval

text \<open>
  Lines 862-873 of the server. \<open>notification.text.match\<close> is a call of \<open>undefined\<close> when
  \<open>text\<close> is truthy and not a string, which throws a \<open>TypeError\<close> that nothing catches.
\<close>

definition extract_amount :: "notification \<Rightarrow> js_error + number" where
  "extract_amount n =
     (if truthy (amountDetected n) then js_parseInt10 (amountDetected n)
      else if truthy (amount n) then js_parseInt10 (amount n)
      else if truthy (text_field n) then
        (case text_field n of
           JStr s \<Rightarrow>
             (case match_Rp s of
                Some g \<Rightarrow> Inr (parseInt10 (filter (\<lambda>c. c \<noteq> CHR ''.'' \<and> c \<noteq> CHR '','') g))
              | None \<Rightarrow> Inr (Num 0))
         | _ \<Rightarrow> Inl TypeError)
      else Inr (Num 0))"

section \<open>Clocks and their two text formats\<close>

text \<open>
  \<open>Date.now()\<close> is an integer number of milliseconds since the epoch. The server uses
  two renderings of an instant: \<open>Date.prototype.toISOString\<close>
  (\<open>YYYY-MM-DDTHH:MM:SS.sssZ\<close>) and SQLite's \<open>CURRENT_TIMESTAMP\<close>
  (\<open>YYYY-MM-DD HH:MM:SS\<close>, UTC, whole seconds). Both go through the proleptic Gregorian
  calendar.
\<close>

definition civil_from_days :: "int \<Rightarrow> int \<times> int \<times> int" where
  "civil_from_days z0 =
     (let z = z0 + 719468;
          era = z div 146097;
          doe = z - era * 146097;
          yoe = (doe - doe div 1460 + doe div 36524 - doe div 146096) div 365;
          y = yoe + era * 400;
          doy = doe - (365 * yoe + yoe div 4 - yoe div 100);
          mp = (5 * doy + 2) div 153;
          d = doy - (153 * mp + 2) div 5 + 1;
          m = (if mp < 10 then mp + 3 else mp - 9)
      in (if m \<le> 2 then y + 1 else y, m, d))"

definition days_from_civil :: "int \<Rightarrow> int \<Rightarrow> int \<Rightarrow> int" where
  "days_from_civil y0 m d =
     (let y = (if m \<le> 2 then y0 - 1 else y0);
          era = y div 400;
          yoe = y - era * 400;
          doy = (153 * (if m > 2 then m - 3 else m + 9) + 2) div 5 + d - 1;
          doe = yoe * 365 + yoe div 4 - yoe div 100 + doy
      in era * 146097 + doe - 719468)"

definition pad :: "nat \<Rightarrow> int \<Rightarrow> string" where
  "pad w i = replicate (w - length (show_nat (nat i))) (CHR ''0'') @ show_nat (nat i)"

definition show_year :: "int \<Rightarrow> string" where
  "show_year y = (if 0 \<le> y \<and> y \<le> 9999 then pad 4 y
                  else (if y < 0 then CHR ''-'' else CHR ''+'') # pad 6 (abs y))"

definition show_date :: "int \<Rightarrow> string" where
  "show_date days = (case civil_from_days days of (y, m, d) \<Rightarrow>
                       show_year y @ ''-'' @ pad 2 m @ ''-'' @ pad 2 d)"

definition show_time :: "int \<Rightarrow> string" where
  "show_time secs = pad 2 (secs div 3600) @ '':'' @ pad 2 (secs mod 3600 div 60) @ '':'' @ pad 2 (secs mod 60)"

text \<open>
  \<open>new Date(t).toISOString()\<close>; it throws a \<open>RangeError\<close> when \<open>t\<close> is not a valid time
  value (\<open>NaN\<close>, or beyond 8.64e15 ms from the epoch).
\<close>

definition toISOString :: "number \<Rightarrow> js_error + string" where
  "toISOString t =
     (case t of
        NaN \<Rightarrow> Inl RangeError
      | Num ms \<Rightarrow>
          if abs ms > 8640000000000000 then Inl RangeError
          else Inr (show_date (ms div 86400000) @ ''T'' @ show_time (ms mod 86400000 div 1000)
                    @ ''.'' @ pad 3 (ms mod 1000) @ ''Z''))"

text \<open>SQLite's \<open>CURRENT_TIMESTAMP\<close> when the system clock reads \<open>now\<close> milliseconds.\<close>

definition CURRENT_TIMESTAMP :: "int \<Rightarrow> string" where
  "CURRENT_TIMESTAMP now =
     show_date (now div 1000 div 86400) @ '' '' @ show_time (now div 1000 mod 86400)"

text \<open>
  \<open>new Date(s)\<close> on the text that \<open>toISOString\<close> writes (a four-digit year, or a
  signed six-digit one), which is the only text the server binds to \<open>expires_at\<close>
  (both \<open>INSERT\<close>s bind \<open>new Date(...).toISOString()\<close>). On that text the function is
  exact. On any other text it answers \<open>NaN\<close>, which need not be what the JavaScript
  engine answers (V8 reads some other shapes as local time): a statement that depends
  on the parsed instant assumes \<open>Date_parse s = Num e\<close>.
\<close>

definition read_nat :: "string \<Rightarrow> int" where
  "read_nat s = foldl (\<lambda>a c. a * 10 + digit_value c) 0 s"

definition Date_parse :: "string \<Rightarrow> number" where
  "Date_parse s =
     (let (sign, ys, r) =
            (if take 1 s = ''+'' then (1, take 6 (drop 1 s), drop 7 s)
             else if take 1 s = ''-'' then (- 1, take 6 (drop 1 s), drop 7 s)
             else (1::int, take 4 s, drop 4 s));
          mo = read_nat (take 2 (drop 1 r));
          d = read_nat (take 2 (drop 4 r));
          h = read_nat (take 2 (drop 7 r));
          mi = read_nat (take 2 (drop 10 r));
          sec = read_nat (take 2 (drop 13 r));
          ms = read_nat (take 3 (drop 16 r))
      in if length ys \<ge> 4 \<and> length r = 20
            \<and> list_all is_digit (ys @ take 2 (drop 1 r) @ take 2 (drop 4 r) @ take 2 (drop 7 r)
                  @ take 2 (drop 10 r) @ take 2 (drop 13 r) @ take 3 (drop 16 r))
            \<and> take 1 r @ take 1 (drop 3 r) @ take 1 (drop 6 r) @ take 1 (drop 9 r)
                  @ take 1 (drop 12 r) @ take 1 (drop 15 r) @ take 1 (drop 19 r) = ''--T::.Z''
            \<and> 1 \<le> mo \<and> mo \<le> 12 \<and> 1 \<le> d \<and> d \<le> 31 \<and> h \<le> 23 \<and> mi \<le> 59 \<and> sec \<le> 59
         then Num (days_from_civil (sign * read_nat ys) mo d * 86400000
                   + h * 3600000 + mi * 60000 + sec * 1000 + ms)
         else NaN)"

section \<open>The relational store\<close>

text \<open>
  The tables of \<open>database.js\<close> that the order, payment and download paths touch. A table
  is the list of its rows in insertion order. Nullable columns are options; \<open>status\<close>
  is the text SQLite stores. \<open>created_at\<close> and \<open>paid_at\<close> hold what
  \<open>CURRENT_TIMESTAMP\<close> wrote, \<open>expires_at\<close> what the server bound (an ISO string).
  The settings table is a key-value list with \<open>key\<close> as primary key.
  Statements are taken to execute: an I/O failure of the store is outside the model,
  while a constraint violation, which the data decides, is modelled.
\<close>

record product =
  id' :: string
  name :: string
  price :: int
  stock :: "int option"
  is_active :: bool
  file_path :: "string option"
  download_link :: "string option"

record order =
  invoice_number :: string
  product_id :: string
  product_name :: string
  product_price :: int
  unique_code :: int
  total_amount :: int
  customer_email :: "string option"
  customer_whatsapp :: "string option"
  customer_telegram :: "string option"
  status :: string
  payment_method :: string
  qris_string :: "string option"
  created_at :: string
  paid_at :: "string option"

record download_token =
  token :: string
  dt_invoice_number :: string
  dt_product_id :: string
  dt_created_at :: string
  expires_at :: string
  is_used :: bool
  download_count :: int
  last_download_at :: "string option"

record db =
  settings :: "(string \<times> string) list"
  products :: "product list"
  orders :: "order list"
  download_tokens :: "download_token list"

text \<open>\<open>getSettings\<close>: the rows of the settings table as an object, key to value.\<close>

definition getSettings :: "db \<Rightarrow> string \<Rightarrow> string option" where
  "getSettings d = map_of (settings d)"

text \<open>What the handlers answer with.\<close>

datatype response =
    Json nat string string "string option"
  | Send nat string
  | Redirect string
  | Download string string
  | Render string "order option"

text \<open>A JavaScript string-or-null used as a condition: \<open>null\<close> and \<open>''\<close> are falsy.\<close>

definition nonempty :: "string option \<Rightarrow> bool" where
  "nonempty x = (case x of None \<Rightarrow> False | Some s \<Rightarrow> s \<noteq> [])"

text \<open>\<open>x || null\<close>\<close>

definition or_null :: "string option \<Rightarrow> string option" where
  "or_null x = (if nonempty x then x else None)"

section \<open>The cleanup sweep\<close>

text \<open>
  \<open>cleanupExpiredOrders\<close>:
  \<^verbatim>\<open>
  const oneHourAgo = new Date(Date.now() - 60 * 60 * 1000).toISOString();
  db.run('DELETE FROM orders WHERE status = ? AND created_at < ?', ['pending', oneHourAgo], ...)
  \<close>
  \<open>created_at\<close> is declared \<open>DATETIME\<close>, which gives the column numeric affinity; what
  \<open>CURRENT_TIMESTAMP\<close> stored is not a numeral and stays text, and so does the bound
  ISO string. SQLite then compares text with text, byte by byte: the lexicographic
  order on \<open>string\<close> used here.
\<close>

definition cleanupExpiredOrders :: "int \<Rightarrow> db \<Rightarrow> js_error + db" where
  "cleanupExpiredOrders now d =
     (case toISOString (Num (now - 60 * 60 * 1000)) of
        Inl e \<Rightarrow> Inl e
      | Inr oneHourAgo \<Rightarrow>
          Inr (d\<lparr>orders := filter (\<lambda>r. \<not> (status r = ''pending'' \<and> created_at r < oneHourAgo)) (orders d)\<rparr>))"

section \<open>Order creation\<close>

text \<open>
  \<open>sanitize.js\<close> and \<open>utils.js\<close> are not among the sources. The three sanitizers are
  parameters; a sanitizer returns a string or a falsy value. \<open>generateInvoiceNumber()\<close>
  is a parameter too: the handler only uses its result.
\<close>

record sanitize =
  sanitizeEmail :: "string option \<Rightarrow> string option"
  sanitizePhone :: "string option \<Rightarrow> string option"
  sanitizeText :: "string option \<Rightarrow> nat \<Rightarrow> string option"

text \<open>
  Modelled from the spec: \<open>generateUniqueCode\<close> of \<open>utils.js\<close> is missing from the
  sources. The spec describes the unique code as "a random integer in the range 1 to
  999 inclusive" ("small random surcharge, 1-999"); \<open>r\<close> is the random draw.
\<close>

definition generateUniqueCode :: "nat \<Rightarrow> int" where
  "generateUniqueCode r = 1 + int (r mod 999)"

record checkout_body =
  body_customer_email :: "string option"
  body_customer_whatsapp :: "string option"
  body_customer_telegram :: "string option"

datatype db_error = SQLITE_CONSTRAINT

text \<open>
  \<open>INSERT INTO orders (...) VALUES (..., 'pending')\<close>: \<open>invoice_number\<close> is \<open>UNIQUE\<close>;
  the rows built below carry the column defaults (\<open>payment_method\<close>,
  \<open>created_at\<close>, \<open>paid_at\<close>) for what the statement does not name.
\<close>

definition insert_order :: "order \<Rightarrow> db \<Rightarrow> db_error + db" where
  "insert_order row d =
     (if invoice_number row \<in> set (map invoice_number (orders d)) then Inl SQLITE_CONSTRAINT
      else Inr (d\<lparr>orders := orders d @ [row]\<rparr>))"

text \<open>\<open>product.stock <= 0\<close>, where a \<open>NULL\<close> stock converts to 0.\<close>

definition out_of_stock :: "product \<Rightarrow> bool" where
  "out_of_stock p = (case stock p of None \<Rightarrow> True | Some s \<Rightarrow> s \<le> 0)"

text \<open>
  The QRIS microservice answers with a \<open>qris_string\<close> (\<open>Some\<close>, possibly undefined) or
  the request fails (\<open>None\<close>), in which case the base string of the settings is used.
\<close>

definition qris_or_fallback :: "string option option \<Rightarrow> (string \<Rightarrow> string option) \<Rightarrow> string option" where
  "qris_or_fallback qrisResponse st =
     (case qrisResponse of Some q \<Rightarrow> q | None \<Rightarrow> st ''qris_base_string'')"

text \<open>
  The handler function of \<open>app.post('/checkout/:productId', ...)\<close>, that is, what runs
  once the rate limiters in front of it have let the request through (the route as a
  whole is \<open>checkout_route\<close> below). \<open>invoiceNumber\<close> is what
  \<open>generateInvoiceNumber()\<close> returned and \<open>r\<close> the random draw of the unique code.
\<close>

definition checkout ::
  "sanitize \<Rightarrow> string \<Rightarrow> checkout_body \<Rightarrow> int \<Rightarrow> string \<Rightarrow> nat \<Rightarrow> string option option \<Rightarrow> db
     \<Rightarrow> response \<times> db" where
  "checkout san productId body now invoiceNumber r qrisResponse d =
     (let email = sanitizeEmail san (body_customer_email body);
          whatsapp = sanitizePhone san (body_customer_whatsapp body);
          telegram = sanitizeText san (body_customer_telegram body) 100
      in if \<not> nonempty email then (Send 400 ''Email is required'', d)
         else
           (case find (\<lambda>p. id' p = productId \<and> is_active p) (products d) of
              None \<Rightarrow> (Send 400 ''Product not available'', d)
            | Some product \<Rightarrow>
                if out_of_stock product then (Send 400 ''Product not available'', d)
                else
                  (let uniqueCode = generateUniqueCode r;
                       totalAmount = price product + uniqueCode;
                       row = \<lparr>invoice_number = invoiceNumber, product_id = id' product,
                              product_name = name product, product_price = price product,
                              unique_code = uniqueCode, total_amount = totalAmount,
                              customer_email = or_null email, customer_whatsapp = or_null whatsapp,
                              customer_telegram = or_null telegram, status = ''pending'',
                              payment_method = ''qris'',
                              qris_string = qris_or_fallback qrisResponse (getSettings d),
                              created_at = CURRENT_TIMESTAMP now, paid_at = None\<rparr>
                   in case insert_order row d of
                        Inl e \<Rightarrow> (Send 500 ''Server error during checkout'', d)
                      | Inr d' \<Rightarrow> (Render ''checkout'' (Some row), d'))))"

text \<open>
  \<open>createOrder(product, customerEmail, customerWhatsapp)\<close> of the WhatsApp bot: the
  caller hands in the product row; a failed insert is rethrown to the caller.
\<close>

definition createOrder ::
  "product \<Rightarrow> string option \<Rightarrow> string option \<Rightarrow> int \<Rightarrow> string \<Rightarrow> nat \<Rightarrow> string option option \<Rightarrow> db
     \<Rightarrow> (db_error + order) \<times> db" where
  "createOrder product customerEmail customerWhatsapp now invoiceNumber r qrisResponse d =
     (let uniqueCode = generateUniqueCode r;
          totalAmount = price product + uniqueCode;
          row = \<lparr>invoice_number = invoiceNumber, product_id = id' product,
                 product_name = name product, product_price = price product,
                 unique_code = uniqueCode, total_amount = totalAmount,
                 customer_email = or_null customerEmail, customer_whatsapp = or_null customerWhatsapp,
                 customer_telegram = None, status = ''pending'', payment_method = ''qris'',
                 qris_string = qris_or_fallback qrisResponse (getSettings d),
                 created_at = CURRENT_TIMESTAMP now, paid_at = None\<rparr>
      in case insert_order row d of
           Inl e \<Rightarrow> (Inl e, d)
         | Inr d' \<Rightarrow> (Inr row, d'))"

section \<open>Download\<close>

text \<open>
  The join of \<open>app.get('/download/:token')\<close>: the token row, the order with its invoice
  number and the product with its id; no row when any of the three is missing.
\<close>

definition token_data :: "string \<Rightarrow> db \<Rightarrow> (download_token \<times> order \<times> product) option" where
  "token_data t d =
     (case find (\<lambda>x. token x = t) (download_tokens d) of
        None \<Rightarrow> None
      | Some dt \<Rightarrow>
          (case find (\<lambda>r. invoice_number r = dt_invoice_number dt) (orders d) of
             None \<Rightarrow> None
           | Some ord \<Rightarrow>
               (case find (\<lambda>p. id' p = dt_product_id dt) (products d) of
                  None \<Rightarrow> None
                | Some p \<Rightarrow> Some (dt, ord, p))))"

text \<open>\<open>now > expiresAt\<close> on two dates: false when \<open>expiresAt\<close> is an invalid date.\<close>

definition is_after :: "int \<Rightarrow> number \<Rightarrow> bool" where
  "is_after now expiresAt = (case expiresAt of NaN \<Rightarrow> False | Num e \<Rightarrow> now > e)"

text \<open>
  \<open>UPDATE download_tokens SET download_count = download_count + 1,
  last_download_at = CURRENT_TIMESTAMP, is_used = 1 WHERE token = ?\<close>
\<close>

definition count_download :: "string \<Rightarrow> int \<Rightarrow> db \<Rightarrow> db" where
  "count_download t now d =
     d\<lparr>download_tokens :=
         map (\<lambda>x. if token x = t
                   then x\<lparr>download_count := download_count x + 1,
                          last_download_at := Some (CURRENT_TIMESTAMP now), is_used := True\<rparr>
                   else x)
           (download_tokens d)\<rparr>"

text \<open>
  What is sent once the checks have passed: the external link when the product has one,
  else the file (its path and the product name the file name is built from), else 404.
\<close>

definition deliver :: "product \<Rightarrow> response" where
  "deliver p =
     (case download_link p of
        Some l \<Rightarrow> if l \<noteq> [] then Redirect l
                  else (case file_path p of
                          Some f \<Rightarrow> if f \<noteq> [] then Download f (name p) else Send 404 ''Download file not found''
                        | None \<Rightarrow> Send 404 ''Download file not found'')
      | None \<Rightarrow> (case file_path p of
                   Some f \<Rightarrow> if f \<noteq> [] then Download f (name p) else Send 404 ''Download file not found''
                 | None \<Rightarrow> Send 404 ''Download file not found''))"

text \<open>
  The handler function of \<open>app.get('/download/:token', ...)\<close>; the route with the general
  rate limiter in front of it is \<open>download_route\<close> below.
\<close>

definition download :: "string \<Rightarrow> int \<Rightarrow> db \<Rightarrow> response \<times> db" where
  "download t now d =
     (case token_data t d of
        None \<Rightarrow> (Redirect ''/expired-link'', d)
      | Some (tokenData, ord, p) \<Rightarrow>
          if is_after now (Date_parse (expires_at tokenData)) then (Redirect ''/expired-link'', d)
          else if status ord \<noteq> ''paid'' then (Send 403 ''Order is not paid yet'', d)
          else (deliver p, count_download t now d))"

section \<open>The payment webhook\<close>

text \<open>
  \<open>SELECT * FROM orders WHERE total_amount = ? AND status = 'pending'
  ORDER BY created_at DESC LIMIT 1\<close>. A \<open>NaN\<close> parameter is bound as \<open>NULL\<close>, which
  equals nothing. Among rows with the same greatest \<open>created_at\<close> SQLite may return any;
  the model returns the one inserted first.
\<close>

fun latest :: "order list \<Rightarrow> order option" where
  "latest [] = None"
| "latest (x # xs) =
     (case latest xs of
        None \<Rightarrow> Some x
      | Some y \<Rightarrow> if created_at x < created_at y then Some y else Some x)"

definition find_pending_order :: "number \<Rightarrow> order list \<Rightarrow> order option" where
  "find_pending_order amt rows =
     (case amt of
        NaN \<Rightarrow> None
      | Num a \<Rightarrow> latest (filter (\<lambda>r. total_amount r = a \<and> status r = ''pending'') rows))"

text \<open>\<open>UPDATE orders SET status = 'paid', paid_at = CURRENT_TIMESTAMP WHERE invoice_number = ?\<close>\<close>

definition mark_paid :: "string \<Rightarrow> int \<Rightarrow> db \<Rightarrow> db" where
  "mark_paid invoice now d =
     d\<lparr>orders := map (\<lambda>r. if invoice_number r = invoice
                            then r\<lparr>status := ''paid'', paid_at := Some (CURRENT_TIMESTAMP now)\<rparr>
                            else r) (orders d)\<rparr>"

text \<open>\<open>UPDATE products SET stock = stock - 1 WHERE id = ? AND stock > 0\<close>\<close>

definition decrease_stock :: "string \<Rightarrow> db \<Rightarrow> db" where
  "decrease_stock pid d =
     d\<lparr>products := map (\<lambda>p. case stock p of
                               None \<Rightarrow> p
                             | Some s \<Rightarrow> if id' p = pid \<and> s > 0 then p\<lparr>stock := Some (s - 1)\<rparr> else p)
                      (products d)\<rparr>"

text \<open>
  \<open>INSERT INTO download_tokens (token, invoice_number, product_id, expires_at)\<close>:
  \<open>token\<close> is the primary key; a duplicate is refused, which the handler only logs.
\<close>

definition insert_token :: "string \<Rightarrow> string \<Rightarrow> string \<Rightarrow> string \<Rightarrow> int \<Rightarrow> db \<Rightarrow> db" where
  "insert_token tok invoice pid expiresAt now d =
     (if tok \<in> set (map token (download_tokens d)) then d
      else d\<lparr>download_tokens := download_tokens d
               @ [\<lparr>token = tok, dt_invoice_number = invoice, dt_product_id = pid,
                   dt_created_at = CURRENT_TIMESTAMP now, expires_at = expiresAt,
                   is_used = False, download_count = 0, last_download_at = None\<rparr>]\<rparr>)"

text \<open>
  \<^verbatim>\<open>
  const expiryMinutes = parseInt(settings.token_expiry_minutes || '60');
  const expiresAt = new Date(Date.now() + expiryMinutes * 60 * 1000).toISOString();
  \<close>
\<close>

definition token_expiry :: "(string \<Rightarrow> string option) \<Rightarrow> int \<Rightarrow> js_error + string" where
  "token_expiry st now =
     (let expiryMinutes =
            parseInt (case st ''token_expiry_minutes'' of
                        None \<Rightarrow> ''60''
                      | Some v \<Rightarrow> if v = [] then ''60'' else v)
      in toISOString (case expiryMinutes of NaN \<Rightarrow> NaN | Num m \<Rightarrow> Num (now + m * 60 * 1000)))"

text \<open>
  The handler from the amount extraction on (lines 862-975). \<open>tok\<close> is what
  \<open>generateDownloadToken()\<close> returned. An exception thrown inside the callback is caught
  by nothing: the request gets no answer, and the model says nothing about the store
  after it. Sending the e-mail and the chat message leaves the store alone and is not
  modelled.
\<close>

definition webhook_authenticated ::
  "(string \<Rightarrow> string option) \<Rightarrow> notification \<Rightarrow> int \<Rightarrow> string \<Rightarrow> db \<Rightarrow> js_error + response \<times> db" where
  "webhook_authenticated st notification now tok d =
     (case extract_amount notification of
        Inl e \<Rightarrow> Inl e
      | Inr amt \<Rightarrow>
          if amt = Num 0 then Inr (Json 200 ''success'' ''No amount detected'' None, d)
          else
            (case find_pending_order amt (orders d) of
               None \<Rightarrow> Inr (Json 200 ''success'' ''No matching order'' None, d)
             | Some ord \<Rightarrow>
                 (case token_expiry st now of
                    Inl e \<Rightarrow> Inl e
                  | Inr expiresAt \<Rightarrow>
                      Inr (Json 200 ''success'' ''Payment processed'' (Some (invoice_number ord)),
                           insert_token tok (invoice_number ord) (product_id ord) expiresAt now
                             (decrease_stock (product_id ord)
                                (mark_paid (invoice_number ord) now d))))))"

text \<open>\<open>settings.webhook_api_key && apiKey !== settings.webhook_api_key\<close>\<close>

definition rejected :: "(string \<Rightarrow> string option) \<Rightarrow> string option \<Rightarrow> bool" where
  "rejected st apiKey =
     (case st ''webhook_api_key'' of
        None \<Rightarrow> False
      | Some key \<Rightarrow> key \<noteq> [] \<and> apiKey \<noteq> Some key)"

text \<open>
  The handler function of \<open>app.post('/webhook/payment', webhookLimiter, ...)\<close>; \<open>apiKey\<close> is
  the \<open>x-api-key\<close> header, if any. The route with its rate limiters is \<open>webhook_route\<close>
  below.
\<close>

definition webhook ::
  "string option \<Rightarrow> notification \<Rightarrow> int \<Rightarrow> string \<Rightarrow> db \<Rightarrow> js_error + response \<times> db" where
  "webhook apiKey notification now tok d =
     (if rejected (getSettings d) apiKey then Inr (Json 401 ''error'' ''Unauthorized'' None, d)
      else webhook_authenticated (getSettings d) notification now tok d)"

text \<open>A series of deliveries, each on the store the one before left; it ends at the first
  uncaught exception.\<close>

record delivery =
  d_apiKey :: "string option"
  d_notification :: notification
  d_now :: int
  d_token :: string

fun webhooks :: "delivery list \<Rightarrow> db \<Rightarrow> js_error + db" where
  "webhooks [] d = Inr d"
| "webhooks (c # cs) d =
     (case webhook (d_apiKey c) (d_notification c) (d_now c) (d_token c) d of
        Inl e \<Rightarrow> Inl e
      | Inr (r, d') \<Rightarrow> webhooks cs d')"

section \<open>Rate limits\<close>

text \<open>
  Every route runs behind \<open>generalLimiter\<close> (\<open>app.use\<close>, line 149); the checkout and
  webhook routes run behind a limiter of their own as well. The server only configures
  \<open>express-rate-limit\<close> (lines 104-146); the package itself is not among the sources.
  Its memory store is modelled as it is documented: per client address a count of hits
  and the end of the current window; the first request after the end opens a new
  window of \<open>windowMs\<close>; a request is refused with status 429 and the configured
  message when the count, this request included, exceeds \<open>max\<close>. The general limiter
  skips the white-listed addresses. \<open>ip\<close> is express's \<open>req.ip\<close>.
\<close>

record limiter =
  windowMs :: int
  max_requests :: nat
  message :: string
  whitelistedIPs :: "string list"

type_synonym hits = "(string \<times> nat \<times> int) list"

definition generalLimiter :: limiter where
  "generalLimiter = \<lparr>windowMs = 15 * 60 * 1000, max_requests = 100,
      message = ''Too many requests from this IP, please try again later'',
      whitelistedIPs = [''113.192.29.155'', ''::ffff:113.192.29.155'', ''127.0.0.1'', ''::1'']\<rparr>"

definition checkoutLimiter :: limiter where
  "checkoutLimiter = \<lparr>windowMs = 60 * 60 * 1000, max_requests = 10,
      message = ''Too many checkout attempts, please try again later'', whitelistedIPs = []\<rparr>"

definition webhookLimiter :: limiter where
  "webhookLimiter = \<lparr>windowMs = 1 * 60 * 1000, max_requests = 100,
      message = ''Webhook rate limit exceeded'', whitelistedIPs = []\<rparr>"

text \<open>Counting one more hit of a client: the new count and the new store.\<close>

definition increment :: "limiter \<Rightarrow> string \<Rightarrow> int \<Rightarrow> hits \<Rightarrow> nat \<times> hits" where
  "increment l key now h =
     (let (totalHits, resetTime) =
            (case map_of h key of
               Some (n, resetTime) \<Rightarrow> if now < resetTime then (n + 1, resetTime) else (1, now + windowMs l)
             | None \<Rightarrow> (1, now + windowMs l))
      in (totalHits, (key, totalHits, resetTime) # filter (\<lambda>e. fst e \<noteq> key) h))"

text \<open>The middleware: whether the request goes on to the next handler, and the new store.\<close>

definition rateLimit :: "limiter \<Rightarrow> string \<Rightarrow> int \<Rightarrow> hits \<Rightarrow> bool \<times> hits" where
  "rateLimit l ip now h =
     (if ip \<in> set (whitelistedIPs l) then (True, h)
      else (case increment l ip now h of (totalHits, h') \<Rightarrow> (totalHits \<le> max_requests l, h')))"

text \<open>The server process: the store and the counters of its limiters.\<close>

record server =
  database :: db
  general_hits :: hits
  checkout_hits :: hits
  webhook_hits :: hits

text \<open>\<open>app.get('/download/:token', ...)\<close> behind \<open>app.use(generalLimiter)\<close>.\<close>

definition download_route :: "string \<Rightarrow> string \<Rightarrow> int \<Rightarrow> server \<Rightarrow> response \<times> server" where
  "download_route ip t now s =
     (case rateLimit generalLimiter ip now (general_hits s) of
        (admitted, g) \<Rightarrow>
          if admitted
          then (case download t now (database s) of
                  (r, d') \<Rightarrow> (r, s\<lparr>database := d', general_hits := g\<rparr>))
          else (Send 429 (message generalLimiter), s\<lparr>general_hits := g\<rparr>))"

text \<open>\<open>app.post('/checkout/:productId', checkoutLimiter, skipCsrf, ...)\<close> behind the general limiter.\<close>

definition checkout_route ::
  "string \<Rightarrow> sanitize \<Rightarrow> string \<Rightarrow> checkout_body \<Rightarrow> int \<Rightarrow> string \<Rightarrow> nat \<Rightarrow> string option option
     \<Rightarrow> server \<Rightarrow> response \<times> server" where
  "checkout_route ip san productId body now invoiceNumber r qrisResponse s =
     (case rateLimit generalLimiter ip now (general_hits s) of
        (admitted, g) \<Rightarrow>
          if admitted
          then (case rateLimit checkoutLimiter ip now (checkout_hits s) of
                  (admitted', c) \<Rightarrow>
                    if admitted'
                    then (case checkout san productId body now invoiceNumber r qrisResponse (database s) of
                            (resp, d') \<Rightarrow> (resp, s\<lparr>database := d', general_hits := g, checkout_hits := c\<rparr>))
                    else (Send 429 (message checkoutLimiter), s\<lparr>general_hits := g, checkout_hits := c\<rparr>))
          else (Send 429 (message generalLimiter), s\<lparr>general_hits := g\<rparr>))"

text \<open>\<open>app.post('/webhook/payment', webhookLimiter, ...)\<close> behind the general limiter.\<close>

definition webhook_route ::
  "string \<Rightarrow> string option \<Rightarrow> notification \<Rightarrow> int \<Rightarrow> string \<Rightarrow> server \<Rightarrow> js_error + response \<times> server" where
  "webhook_route ip apiKey notification now tok s =
     (case rateLimit generalLimiter ip now (general_hits s) of
        (admitted, g) \<Rightarrow>
          if admitted
          then (case rateLimit webhookLimiter ip now (webhook_hits s) of
                  (admitted', w) \<Rightarrow>
                    if admitted'
                    then (case webhook apiKey notification now tok (database s) of
                            Inl e \<Rightarrow> Inl e
                          | Inr (resp, d') \<Rightarrow>
                              Inr (resp, s\<lparr>database := d', general_hits := g, webhook_hits := w\<rparr>))
                    else Inr (Send 429 (message webhookLimiter), s\<lparr>general_hits := g, webhook_hits := w\<rparr>))
          else Inr (Send 429 (message generalLimiter), s\<lparr>general_hits := g\<rparr>))"

text \<open>Requests for the same token, each from an address at a time, one after the other.\<close>

fun redeems :: "string \<Rightarrow> (string \<times> int) list \<Rightarrow> server \<Rightarrow> server" where
  "redeems t [] s = s"
| "redeems t ((ip, now) # rs) s = redeems t rs (snd (download_route ip t now s))"

section \<open>Runs of the server\<close>

text \<open>
  The requests and the timer that change the store, and a run of them in sequence. A
  run ends at the first uncaught exception.
\<close>

datatype op =
    Checkout sanitize string checkout_body int string nat "string option option"
  | CreateOrder product "string option" "string option" int string nat "string option option"
  | Webhook "string option" notification int string
  | Cleanup int
  | Redeem string int

fun step :: "op \<Rightarrow> db \<Rightarrow> js_error + db" where
  "step (Checkout san productId body now invoiceNumber r q) d =
     Inr (snd (checkout san productId body now invoiceNumber r q d))"
| "step (CreateOrder p e w now invoiceNumber r q) d =
     Inr (snd (createOrder p e w now invoiceNumber r q d))"
| "step (Webhook apiKey n now tok) d =
     (case webhook apiKey n now tok d of Inl e \<Rightarrow> Inl e | Inr (r, d') \<Rightarrow> Inr d')"
| "step (Cleanup now) d = cleanupExpiredOrders now d"
| "step (Redeem t now) d = Inr (snd (download t now d))"

fun run :: "op list \<Rightarrow> db \<Rightarrow> js_error + db" where
  "run [] d = Inr d"
| "run (x # xs) d = (case step x d of Inl e \<Rightarrow> Inl e | Inr d' \<Rightarrow> run xs d')"

text \<open>The two invariants of the claims: an order's amounts, and a stock that is not negative.\<close>

definition order_ok :: "order \<Rightarrow> bool" where
  "order_ok r = (total_amount r = product_price r + unique_code r \<and> 1 \<le> unique_code r \<and> unique_code r \<le> 999)"

definition stock_nonneg :: "product \<Rightarrow> bool" where
  "stock_nonneg p = (case stock p of None \<Rightarrow> True | Some s \<Rightarrow> 0 \<le> s)"

section \<open>A small shop\<close>

text \<open>
  One product at 50,000 with five in stock, used by the examples below. The sanitizers of
  the examples are the identity (and truncation to the given length).
\<close>

definition ebook :: product where
  "ebook = \<lparr>id' = ''P1'', name = ''E-Book'', price = 50000, stock = Some 5, is_active = True,
            file_path = Some ''/uploads/ebook.pdf'', download_link = None\<rparr>"

definition shop :: db where
  "shop = \<lparr>settings = [(''webhook_api_key'', ''s3cret''), (''token_expiry_minutes'', ''60'')],
           products = [ebook], orders = [], download_tokens = []\<rparr>"

definition plain :: sanitize where
  "plain = \<lparr>sanitizeEmail = (\<lambda>x. x), sanitizePhone = (\<lambda>x. x), sanitizeText = (\<lambda>x n. map_option (take n) x)\<rparr>"

definition pays :: "int \<Rightarrow> notification" where
  "pays a = \<lparr>amountDetected = JNum a, amount = JUndefined, text_field = JUndefined\<rparr>"

text \<open>Noon of 1 January 2025 (UTC), in milliseconds since the epoch.\<close>

definition noon :: int where
  "noon = 1735732800000"

definition by_email :: checkout_body where
  "by_email = \<lparr>body_customer_email = Some ''ani@example.com'', body_customer_whatsapp = None,
               body_customer_telegram = None\<rparr>"

definition by_phone :: checkout_body where
  "by_phone = \<lparr>body_customer_email = None, body_customer_whatsapp = Some ''6281234567890'',
               body_customer_telegram = None\<rparr>"

text \<open>The order of the spec's scenario: price 50,000, unique code 123, placed at noon.\<close>

definition inv1 :: order where
  "inv1 = \<lparr>invoice_number = ''INV-1'', product_id = ''P1'', product_name = ''E-Book'',
           product_price = 50000, unique_code = 123, total_amount = 50123,
           customer_email = Some ''ani@example.com'', customer_whatsapp = None,
           customer_telegram = None, status = ''pending'', payment_method = ''qris'',
           qris_string = None, created_at = ''2025-01-01 12:00:00'', paid_at = None\<rparr>"

definition placed :: db where
  "placed = shop\<lparr>orders := [inv1]\<rparr>"

text \<open>A second order five minutes later that drew the same unique code.\<close>

definition inv2 :: order where
  "inv2 = inv1\<lparr>invoice_number := ''INV-2'', created_at := ''2025-01-01 12:05:00''\<rparr>"

definition placed_twice :: db where
  "placed_twice = shop\<lparr>orders := [inv1, inv2]\<rparr>"

text \<open>The store after the payment of 50,123 was matched to the first order at 12:10.\<close>

definition tok1 :: download_token where
  "tok1 = \<lparr>token = ''tok1'', dt_invoice_number = ''INV-1'', dt_product_id = ''P1'',
           dt_created_at = ''2025-01-01 12:10:00'', expires_at = ''2025-01-01T13:10:00.000Z'',
           is_used = False, download_count = 0, last_download_at = None\<rparr>"

definition paid :: db where
  "paid = shop\<lparr>products := [ebook\<lparr>stock := Some 4\<rparr>],
               orders := [inv1\<lparr>status := ''paid'', paid_at := Some ''2025-01-01 12:10:00''\<rparr>],
               download_tokens := [tok1]\<rparr>"

text \<open>A token row bound to an order that is still pending.\<close>

definition held :: db where
  "held = placed\<lparr>download_tokens := [tok1]\<rparr>"


text \<open>The tokens and stores of two payments of 50,123 while both orders are pending.\<close>

definition tokA :: download_token where
  "tokA = \<lparr>token = ''tokA'', dt_invoice_number = ''INV-2'', dt_product_id = ''P1'',
           dt_created_at = ''2025-01-01 12:10:00'', expires_at = ''2025-01-01T13:10:00.000Z'',
           is_used = False, download_count = 0, last_download_at = None\<rparr>"

definition tokB :: download_token where
  "tokB = \<lparr>token = ''tokB'', dt_invoice_number = ''INV-1'', dt_product_id = ''P1'',
           dt_created_at = ''2025-01-01 12:11:00'', expires_at = ''2025-01-01T13:11:00.000Z'',
           is_used = False, download_count = 0, last_download_at = None\<rparr>"

definition paid_second :: db where
  "paid_second = shop\<lparr>products := [ebook\<lparr>stock := Some 4\<rparr>],
       orders := [inv1, inv2\<lparr>status := ''paid'', paid_at := Some ''2025-01-01 12:10:00''\<rparr>],
       download_tokens := [tokA]\<rparr>"

definition paid_both :: db where
  "paid_both = shop\<lparr>products := [ebook\<lparr>stock := Some 3\<rparr>],
       orders := [inv1\<lparr>status := ''paid'', paid_at := Some ''2025-01-01 12:11:00''\<rparr>,
                  inv2\<lparr>status := ''paid'', paid_at := Some ''2025-01-01 12:10:00''\<rparr>],
       download_tokens := [tokA, tokB]\<rparr>"

text \<open>One copy left and two pending orders for it.\<close>

definition last_copy :: db where
  "last_copy = placed_twice\<lparr>products := [ebook\<lparr>stock := Some 1\<rparr>]\<rparr>"

definition last_copy_sold :: db where
  "last_copy_sold = paid_second\<lparr>products := [ebook\<lparr>stock := Some 0\<rparr>]\<rparr>"

definition last_copy_sold_twice :: db where
  "last_copy_sold_twice = paid_both\<lparr>products := [ebook\<lparr>stock := Some 0\<rparr>]\<rparr>"


text \<open>A notification whose \<open>text\<close> is a number: the JSON body \<^verbatim>\<open>{"text": 12345}\<close>.\<close>

definition numeric_text :: notification where
  "numeric_text = \<lparr>amountDetected = JUndefined, amount = JUndefined, text_field = JNum 12345\<rparr>"

text \<open>The same order placed through the WhatsApp bot, which knows the buyer's number.\<close>

definition inv1_bot :: order where
  "inv1_bot = inv1\<lparr>customer_whatsapp := Some ''6281234567890''\<rparr>"

text \<open>A freshly started server on a store, a buyer's address, and the server after the
  buyer redeemed \<open>tok1\<close> \<open>k\<close> times at 12:11:40.\<close>

definition started :: "db \<Rightarrow> server" where
  "started d = \<lparr>database = d, general_hits = [], checkout_hits = [], webhook_hits = []\<rparr>"

definition buyer :: string where
  "buyer = ''203.0.113.7''"

definition redeemed :: "nat \<Rightarrow> server" where
  "redeemed k =
     \<lparr>database = paid\<lparr>download_tokens :=
          [tok1\<lparr>download_count := int k, last_download_at := Some ''2025-01-01 12:11:40'',
                 is_used := True\<rparr>]\<rparr>,
      general_hits = [(buyer, k, noon + 700000 + 15 * 60 * 1000)],
      checkout_hits = [], webhook_hits = []\<rparr>"

text \<open>The payment notifier's address, and the server after the buyer's tenth checkout
  attempt of the hour.\<close>

definition notifier :: string where
  "notifier = ''198.51.100.9''"

definition ten_checkouts :: server where
  "ten_checkouts = \<lparr>database = shop, general_hits = [(buyer, 10, noon + 15 * 60 * 1000)],
                     checkout_hits = [(buyer, 10, noon + 60 * 60 * 1000)], webhook_hits = []\<rparr>"

section \<open>Facts about the operations\<close>

lemma generateUniqueCode_range: "1 \<le> generateUniqueCode r \<and> generateUniqueCode r \<le> 999"
  unfolding generateUniqueCode_def by (simp add: less_eq_Suc_le flip: of_nat_Suc) 

lemma latest_mem: "latest xs = Some y \<Longrightarrow> y \<in> set xs"
  by (induction xs arbitrary: y) (auto split: option.splits if_splits)

lemma latest_None: "latest xs = None \<longleftrightarrow> xs = []"
  by (cases xs) (auto split: option.splits)

lemma latest_max: "latest xs = Some y \<Longrightarrow> x \<in> set xs \<Longrightarrow> created_at x \<le> created_at y"
  by (induction xs arbitrary: y) (auto split: option.splits if_splits simp: latest_None)

lemma insert_order_orders:
  "insert_order row d = Inr d' \<Longrightarrow> d' = d\<lparr>orders := orders d @ [row]\<rparr>"
  by (auto simp: insert_order_def split: if_splits)

lemma checkout_cases:
  "checkout san productId body now invoiceNumber r q d = (resp, d') \<Longrightarrow>
     d' = d \<or> (\<exists>row. resp = Render ''checkout'' (Some row) \<and> d' = d\<lparr>orders := orders d @ [row]\<rparr> \<and> order_ok row \<and> status row = ''pending'')"
  unfolding checkout_def Let_def
  by (auto split: if_splits option.splits sum.splits dest!: insert_order_orders simp: order_ok_def generateUniqueCode_range)

lemma createOrder_cases:
  "createOrder p e w now invoiceNumber r q d = (res, d') \<Longrightarrow>
     d' = d \<or> (\<exists>row. res = Inr row \<and> d' = d\<lparr>orders := orders d @ [row]\<rparr> \<and> order_ok row \<and> status row = ''pending'')"
  unfolding createOrder_def Let_def
  by (auto split: if_splits option.splits sum.splits dest!: insert_order_orders simp: order_ok_def generateUniqueCode_range)

lemma mark_paid_fields [simp]:
  "settings (mark_paid i now d) = settings d"
  "products (mark_paid i now d) = products d"
  "download_tokens (mark_paid i now d) = download_tokens d"
  "orders (mark_paid i now d) =
     map (\<lambda>r. if invoice_number r = i
               then r\<lparr>status := ''paid'', paid_at := Some (CURRENT_TIMESTAMP now)\<rparr> else r) (orders d)"
  by (simp_all add: mark_paid_def)

lemma decrease_stock_fields [simp]:
  "settings (decrease_stock pid d) = settings d"
  "orders (decrease_stock pid d) = orders d"
  "download_tokens (decrease_stock pid d) = download_tokens d"
  "products (decrease_stock pid d) =
     map (\<lambda>p. case stock p of
                 None \<Rightarrow> p
               | Some s \<Rightarrow> if id' p = pid \<and> s > 0 then p\<lparr>stock := Some (s - 1)\<rparr> else p)
       (products d)"
  by (simp_all add: decrease_stock_def)

lemma insert_token_fields [simp]:
  "settings (insert_token tok i pid e now d) = settings d"
  "orders (insert_token tok i pid e now d) = orders d"
  "products (insert_token tok i pid e now d) = products d"
  by (simp_all add: insert_token_def)

lemma count_download_fields [simp]:
  "settings (count_download t now d) = settings d"
  "orders (count_download t now d) = orders d"
  "products (count_download t now d) = products d"
  by (simp_all add: count_download_def)

lemma webhook_authenticated_cases:
  assumes "webhook_authenticated st n now tok d = Inr (resp, d')"
  shows "(d' = d \<and> (resp = Json 200 ''success'' ''No amount detected'' None
                     \<or> resp = Json 200 ''success'' ''No matching order'' None))
         \<or> (\<exists>amt ord expiresAt. extract_amount n = Inr amt \<and> amt \<noteq> Num 0
               \<and> find_pending_order amt (orders d) = Some ord
               \<and> token_expiry st now = Inr expiresAt
               \<and> resp = Json 200 ''success'' ''Payment processed'' (Some (invoice_number ord))
               \<and> d' = insert_token tok (invoice_number ord) (product_id ord) expiresAt now
                        (decrease_stock (product_id ord) (mark_paid (invoice_number ord) now d)))"
  using assms unfolding webhook_authenticated_def
  by (auto split: sum.splits if_splits option.splits)

lemma webhook_cases:
  assumes "webhook apiKey n now tok d = Inr (resp, d')"
  shows "(d' = d \<and> (resp = Json 401 ''error'' ''Unauthorized'' None \<and> rejected (getSettings d) apiKey
                     \<or> resp = Json 200 ''success'' ''No amount detected'' None
                     \<or> resp = Json 200 ''success'' ''No matching order'' None))
         \<or> (\<exists>amt ord expiresAt. extract_amount n = Inr amt \<and> amt \<noteq> Num 0
               \<and> find_pending_order amt (orders d) = Some ord
               \<and> token_expiry (getSettings d) now = Inr expiresAt
               \<and> resp = Json 200 ''success'' ''Payment processed'' (Some (invoice_number ord))
               \<and> d' = insert_token tok (invoice_number ord) (product_id ord) expiresAt now
                        (decrease_stock (product_id ord) (mark_paid (invoice_number ord) now d)))"
proof (cases "rejected (getSettings d) apiKey")
  case True
  with assms show ?thesis by (simp add: webhook_def)
next
  case False
  with assms have "webhook_authenticated (getSettings d) n now tok d = Inr (resp, d')"
    by (simp add: webhook_def)
  from webhook_authenticated_cases[OF this] show ?thesis by blast
qed

lemma order_ok_paid: "order_ok (r\<lparr>status := s, paid_at := t\<rparr>) = order_ok r"
  by (simp add: order_ok_def)

lemma webhook_orders_ok:
  assumes "webhook apiKey n now tok d = Inr (resp, d')" and "list_all order_ok (orders d)"
  shows "list_all order_ok (orders d')"
  using webhook_cases[OF assms(1)] assms(2)
  by (auto simp: list_all_iff order_ok_paid)

lemma webhook_stock_nonneg:
  assumes "webhook apiKey n now tok d = Inr (resp, d')" and "list_all stock_nonneg (products d)"
  shows "list_all stock_nonneg (products d')"
  using webhook_cases[OF assms(1)] assms(2)
  by (fastforce simp: list_all_iff stock_nonneg_def split: option.splits if_splits)

lemma cleanup_orders:
  "cleanupExpiredOrders now d = Inr d' \<Longrightarrow> set (orders d') \<subseteq> set (orders d) \<and> products d' = products d"
  by (auto simp: cleanupExpiredOrders_def split: sum.splits)

lemma download_keeps:
  "orders (snd (download t now d)) = orders d \<and> products (snd (download t now d)) = products d
   \<and> settings (snd (download t now d)) = settings d"
  by (auto simp: download_def split: option.splits)

lemma step_orders_ok:
  assumes "step x d = Inr d'" and "list_all order_ok (orders d)"
  shows "list_all order_ok (orders d')"
proof (cases x)
  case (Checkout san productId body now invoiceNumber r q)
  obtain resp d2 where c: "checkout san productId body now invoiceNumber r q d = (resp, d2)"
    by (cases "checkout san productId body now invoiceNumber r q d")
  with Checkout assms(1) have "d2 = d'" by simp
  with checkout_cases[OF c] assms(2) show ?thesis by auto
next
  case (CreateOrder p e w now invoiceNumber r q)
  obtain res d2 where c: "createOrder p e w now invoiceNumber r q d = (res, d2)"
    by (cases "createOrder p e w now invoiceNumber r q d")
  with CreateOrder assms(1) have "d2 = d'" by simp
  with createOrder_cases[OF c] assms(2) show ?thesis by auto
next
  case (Webhook apiKey n now tok)
  with assms(1) obtain resp where "webhook apiKey n now tok d = Inr (resp, d')"
    by (auto split: sum.splits)
  from webhook_orders_ok[OF this assms(2)] show ?thesis .
next
  case (Cleanup now)
  with assms(1) have "cleanupExpiredOrders now d = Inr d'" by simp
  from cleanup_orders[OF this] assms(2) show ?thesis by (auto simp: list_all_iff)
next
  case (Redeem t now)
  with assms show ?thesis by (auto simp: download_keeps)
qed

lemma update_where_distinct:
  assumes "distinct (map f xs)" and "x \<in> set xs"
  shows "\<exists>i<length xs. xs ! i = x \<and> map (\<lambda>r. if f r = f x then g r else r) xs = xs[i := g x]"
proof -
  from assms(2) obtain i where i: "i < length xs" "xs ! i = x"
    by (auto simp: in_set_conv_nth)
  have "map (\<lambda>r. if f r = f x then g r else r) xs = xs[i := g x]"
  proof (rule nth_equalityI)
    show "length (map (\<lambda>r. if f r = f x then g r else r) xs) = length (xs[i := g x])" by simp
  next
    fix j assume "j < length (map (\<lambda>r. if f r = f x then g r else r) xs)"
    then have j: "j < length xs" by simp
    show "map (\<lambda>r. if f r = f x then g r else r) xs ! j = xs[i := g x] ! j"
    proof (cases "j = i")
      case True
      with i j show ?thesis by simp
    next
      case False
      have "map f xs ! j \<noteq> map f xs ! i"
        using assms(1) i(1) j False by (simp add: nth_eq_iff_index_eq del: nth_map)
      with i j False show ?thesis by simp
    qed
  qed
  with i show ?thesis by blast
qed

lemma find_pending_order_Some:
  assumes "find_pending_order (Num a) rows = Some ord"
  shows "ord \<in> set rows \<and> total_amount ord = a \<and> status ord = ''pending''
         \<and> (\<forall>r\<in>set rows. total_amount r = a \<and> status r = ''pending'' \<longrightarrow> created_at r \<le> created_at ord)"
proof -
  let ?c = "filter (\<lambda>r. total_amount r = a \<and> status r = ''pending'') rows"
  from assms have l: "latest ?c = Some ord" by (simp add: find_pending_order_def)
  from latest_mem[OF l] have "ord \<in> set rows \<and> total_amount ord = a \<and> status ord = ''pending''" by simp
  moreover have "\<forall>r\<in>set rows. total_amount r = a \<and> status r = ''pending'' \<longrightarrow> created_at r \<le> created_at ord"
    using latest_max[OF l] by simp
  ultimately show ?thesis by blast
qed

lemma webhook_unmatched:
  assumes "\<not> rejected (getSettings d) apiKey" and "extract_amount n = Inr amt" and "amt \<noteq> Num 0"
      and "find_pending_order amt (orders d) = None"
  shows "webhook apiKey n now tok d = Inr (Json 200 ''success'' ''No matching order'' None, d)"
  using assms by (simp add: webhook_def webhook_authenticated_def)

lemma webhook_matched:
  assumes "\<not> rejected (getSettings d) apiKey" and "extract_amount n = Inr amt" and "amt \<noteq> Num 0"
      and "find_pending_order amt (orders d) = Some ord"
      and "token_expiry (getSettings d) now = Inr expiresAt"
  shows "webhook apiKey n now tok d
           = Inr (Json 200 ''success'' ''Payment processed'' (Some (invoice_number ord)),
                  insert_token tok (invoice_number ord) (product_id ord) expiresAt now
                    (decrease_stock (product_id ord) (mark_paid (invoice_number ord) now d)))"
  using assms by (simp add: webhook_def webhook_authenticated_def)

lemma webhook_no_amount:
  assumes "\<not> rejected (getSettings d) apiKey" and "extract_amount n = Inr (Num 0)"
  shows "webhook apiKey n now tok d = Inr (Json 200 ''success'' ''No amount detected'' None, d)"
  using assms by (simp add: webhook_def webhook_authenticated_def)

lemma webhook_NaN:
  assumes "\<not> rejected (getSettings d) apiKey" and "extract_amount n = Inr NaN"
  shows "webhook apiKey n now tok d = Inr (Json 200 ''success'' ''No matching order'' None, d)"
  using assms by (simp add: webhook_def webhook_authenticated_def find_pending_order_def)

lemma webhook_throws:
  assumes "\<not> rejected (getSettings d) apiKey" and "extract_amount n = Inl e"
  shows "webhook apiKey n now tok d = Inl e"
  using assms by (simp add: webhook_def webhook_authenticated_def)

lemma extract_amount_order:
  "truthy (amountDetected n) \<Longrightarrow> extract_amount n = js_parseInt10 (amountDetected n)"
  "\<not> truthy (amountDetected n) \<Longrightarrow> truthy (amount n) \<Longrightarrow> extract_amount n = js_parseInt10 (amount n)"
  "\<not> truthy (amountDetected n) \<Longrightarrow> \<not> truthy (amount n) \<Longrightarrow> text_field n = JStr s \<Longrightarrow> match_Rp s = Some g
     \<Longrightarrow> extract_amount n = Inr (parseInt10 (filter (\<lambda>c. c \<noteq> CHR ''.'' \<and> c \<noteq> CHR '','') g))"
  "\<not> truthy (amountDetected n) \<Longrightarrow> \<not> truthy (amount n) \<Longrightarrow> text_field n = JStr s \<Longrightarrow> match_Rp s = None
     \<Longrightarrow> extract_amount n = Inr (Num 0)"
  "\<not> truthy (amountDetected n) \<Longrightarrow> \<not> truthy (amount n) \<Longrightarrow> \<not> truthy (text_field n)
     \<Longrightarrow> extract_amount n = Inr (Num 0)"
  by (auto simp: extract_amount_def)

lemma at_most_one:
  assumes "length xs \<le> 1" and "x \<in> set xs" and "y \<in> set xs"
  shows "x = y"
proof (cases xs)
  case Nil
  with assms(2) show ?thesis by simp
next
  case (Cons a as)
  with assms(1) have "as = []" by simp
  with Cons assms(2,3) show ?thesis by simp
qed

lemma find_map_same:
  assumes "\<And>x. P (g x) = P x"
  shows "find P (map g xs) = map_option g (find P xs)"
  by (induction xs) (simp_all add: assms)

lemma token_data_count_download:
  assumes "token_data t d = Some (tokenData, ord, p)"
  shows "\<exists>tokenData'. token_data t (count_download t' now d) = Some (tokenData', ord, p)
            \<and> expires_at tokenData' = expires_at tokenData"
proof -
  let ?g = "\<lambda>x. if token x = t'
                 then x\<lparr>download_count := download_count x + 1,
                        last_download_at := Some (CURRENT_TIMESTAMP now), is_used := True\<rparr>
                 else x"
  have f: "find (\<lambda>x. token x = t) (download_tokens (count_download t' now d))
             = map_option ?g (find (\<lambda>x. token x = t) (download_tokens d))"
    unfolding count_download_def by (simp add: find_map_same)
  from assms obtain dt where dt: "find (\<lambda>x. token x = t) (download_tokens d) = Some dt"
    by (auto simp: token_data_def split: option.splits)
  with assms have "token_data t (count_download t' now d) = Some (?g dt, ord, p)"
    by (auto simp: token_data_def f split: option.splits)
  moreover from assms dt have "tokenData = dt"
    by (auto simp: token_data_def split: option.splits)
  ultimately show ?thesis by auto
qed

lemma token_data_download:
  assumes "token_data t d = Some (tokenData, ord, p)"
  shows "\<exists>tokenData'. token_data t (snd (download t' now d)) = Some (tokenData', ord, p)
            \<and> expires_at tokenData' = expires_at tokenData"
proof (cases "snd (download t' now d) = d")
  case True
  with assms show ?thesis by simp
next
  case False
  then have "snd (download t' now d) = count_download t' now d"
    by (auto simp: download_def split: option.splits if_splits)
  with token_data_count_download[OF assms] show ?thesis by simp
qed

lemma token_data_row:
  assumes "token_data t d = Some (tokenData, ord, p)"
  shows "find (\<lambda>x. token x = t) (download_tokens d) = Some tokenData"
  using assms by (auto simp: token_data_def split: option.splits)

lemma cleanup_keeps_not_pending:
  assumes "cleanupExpiredOrders now d = Inr d'" and "r \<in> set (orders d)" and "status r \<noteq> ''pending''"
  shows "r \<in> set (orders d')"
  using assms by (auto simp: cleanupExpiredOrders_def split: sum.splits)

lemma webhook_not_rejected:
  assumes "webhook apiKey n now tok d = Inr (Json 200 s m i, d')"
  shows "\<not> rejected (getSettings d) apiKey"
  using assms by (auto simp: webhook_def split: if_splits)

lemma webhook_processed:
  assumes "webhook apiKey n now tok d = Inr (Json 200 ''success'' ''Payment processed'' (Some i), d')"
  shows "\<exists>amt ord expiresAt. extract_amount n = Inr amt \<and> amt \<noteq> Num 0
           \<and> find_pending_order amt (orders d) = Some ord
           \<and> d' = insert_token tok (invoice_number ord) (product_id ord) expiresAt now
                    (decrease_stock (product_id ord) (mark_paid (invoice_number ord) now d))"
  using webhook_cases[OF assms] by auto

lemma checkout_created:
  assumes "checkout san productId body now invoiceNumber r q d = (Render page (Some row), d')"
  shows "orders d' = orders d @ [row] \<and> order_ok row"
  using assms unfolding checkout_def Let_def
  by (auto split: if_splits option.splits sum.splits dest!: insert_order_orders
      simp: order_ok_def generateUniqueCode_range)

lemma createOrder_created:
  assumes "createOrder p e w now invoiceNumber r q d = (Inr row, d')"
  shows "orders d' = orders d @ [row] \<and> order_ok row"
  using assms unfolding createOrder_def Let_def
  by (auto split: if_splits option.splits sum.splits dest!: insert_order_orders
      simp: order_ok_def generateUniqueCode_range)

lemma run_orders_ok:
  "run xs d = Inr d' \<Longrightarrow> list_all order_ok (orders d) \<Longrightarrow> list_all order_ok (orders d')"
proof (induction xs arbitrary: d)
  case Nil
  then show ?case by simp
next
  case (Cons x xs)
  then obtain d1 where s: "step x d = Inr d1" and r: "run xs d1 = Inr d'"
    by (auto split: sum.splits)
  from Cons.IH[OF r step_orders_ok[OF s Cons.prems(2)]] show ?case .
qed


lemma download_route_admitted:
  assumes "fst (rateLimit generalLimiter ip now (general_hits s))"
  shows "fst (download_route ip t now s) = fst (download t now (database s))"
    and "database (snd (download_route ip t now s)) = snd (download t now (database s))"
  using assms by (auto simp: download_route_def split: prod.splits)

lemma download_route_refused:
  assumes "\<not> fst (rateLimit generalLimiter ip now (general_hits s))"
  shows "fst (download_route ip t now s) = Send 429 (message generalLimiter)"
    and "database (snd (download_route ip t now s)) = database s"
  using assms by (auto simp: download_route_def split: prod.splits)

lemma token_data_download_route:
  assumes "token_data t (database s) = Some (tokenData, ord, p)"
  shows "\<exists>tokenData'. token_data t (database (snd (download_route ip t' now s))) = Some (tokenData', ord, p)
            \<and> expires_at tokenData' = expires_at tokenData"
proof (cases "fst (rateLimit generalLimiter ip now (general_hits s))")
  case True
  from token_data_download[OF assms] show ?thesis
    unfolding download_route_admitted(2)[OF True] .
next
  case False
  with assms show ?thesis by (simp add: download_route_refused(2))
qed

lemma token_data_redeems:
  assumes "token_data t (database s) = Some (tokenData, ord, p)"
  shows "\<exists>tokenData'. token_data t (database (redeems t' rs s)) = Some (tokenData', ord, p)
            \<and> expires_at tokenData' = expires_at tokenData"
  using assms
proof (induction rs arbitrary: s tokenData)
  case Nil
  then show ?case by simp
next
  case (Cons r rs)
  obtain ip now where r: "r = (ip, now)" by (cases r)
  from token_data_download_route[OF Cons.prems] obtain td1 where
    1: "token_data t (database (snd (download_route ip t' now s))) = Some (td1, ord, p)"
    and 2: "expires_at td1 = expires_at tokenData" by blast
  from Cons.IH[OF 1] 2 show ?case by (simp add: r)
qed

lemma redeems_without_row:
  assumes "token_data t (database s) = None"
  shows "database (redeems t rs s) = database s"
  using assms
proof (induction rs arbitrary: s)
  case Nil
  show ?case by simp
next
  case (Cons r rs)
  obtain ip now where r: "r = (ip, now)" by (cases r)
  have d: "database (snd (download_route ip t now s)) = database s"
  proof (cases "fst (rateLimit generalLimiter ip now (general_hits s))")
    case True
    with Cons.prems show ?thesis by (simp add: download_route_admitted(2) download_def)
  next
    case False
    then show ?thesis by (simp add: download_route_refused(2))
  qed
  with Cons.prems have "token_data t (database (snd (download_route ip t now s))) = None" by simp
  from Cons.IH[OF this] d show ?case by (simp add: r)
qed

lemma first_request_admitted:
  assumes "0 < max_requests l"
  shows "fst (rateLimit l ip now [])"
  using assms by (simp add: rateLimit_def increment_def)

lemma limits_positive:
  "0 < max_requests generalLimiter" "0 < max_requests checkoutLimiter" "0 < max_requests webhookLimiter"
  by (simp_all add: generalLimiter_def checkoutLimiter_def webhookLimiter_def)

lemma webhook_route_admitted:
  assumes "fst (rateLimit generalLimiter ip now (general_hits s))"
      and "fst (rateLimit webhookLimiter ip now (webhook_hits s))"
      and "webhook apiKey n now tok (database s) = Inr (resp, d')"
  shows "\<exists>s'. webhook_route ip apiKey n now tok s = Inr (resp, s') \<and> database s' = d'"
  using assms by (auto simp: webhook_route_def split: prod.splits)

lemma checkout_route_admitted:
  assumes "fst (rateLimit generalLimiter ip now (general_hits s))"
      and "fst (rateLimit checkoutLimiter ip now (checkout_hits s))"
  shows "fst (checkout_route ip san productId body now invoiceNumber r q s)
           = fst (checkout san productId body now invoiceNumber r q (database s))"
    and "database (snd (checkout_route ip san productId body now invoiceNumber r q s))
           = snd (checkout san productId body now invoiceNumber r q (database s))"
  using assms by (auto simp: checkout_route_def split: prod.splits)

lemma checkout_route_refused:
  "\<not> fst (rateLimit generalLimiter ip now (general_hits s)) \<Longrightarrow>
     fst (checkout_route ip san productId body now invoiceNumber r q s) = Send 429 (message generalLimiter)
     \<and> database (snd (checkout_route ip san productId body now invoiceNumber r q s)) = database s"
  "fst (rateLimit generalLimiter ip now (general_hits s)) \<Longrightarrow>
   \<not> fst (rateLimit checkoutLimiter ip now (checkout_hits s)) \<Longrightarrow>
     fst (checkout_route ip san productId body now invoiceNumber r q s) = Send 429 (message checkoutLimiter)
     \<and> database (snd (checkout_route ip san productId body now invoiceNumber r q s)) = database s"
  by (auto simp: checkout_route_def split: prod.splits)

lemma checkout_outcome:
  assumes product: "find (\<lambda>p. id' p = productId \<and> is_active p) (products d) = Some product"
      and in_stock: "stock product = Some s" "0 < s"
      and fresh: "invoiceNumber \<notin> set (map invoice_number (orders d))"
  shows "(nonempty (sanitizeEmail san (body_customer_email body)) \<longrightarrow>
            (\<exists>row. checkout san productId body now invoiceNumber r qrisResponse d
                      = (Render ''checkout'' (Some row), d\<lparr>orders := orders d @ [row]\<rparr>)
                  \<and> status row = ''pending'' \<and> invoice_number row = invoiceNumber
                  \<and> product_id row = productId
                  \<and> customer_email row = sanitizeEmail san (body_customer_email body)))
         \<and> (\<not> nonempty (sanitizeEmail san (body_customer_email body)) \<longrightarrow>
              checkout san productId body now invoiceNumber r qrisResponse d
                = (Send 400 ''Email is required'', d))"
proof -
  from product have pid: "id' product = productId"
    by (auto simp: find_Some_iff)
  from in_stock have s: "\<not> out_of_stock product" by (simp add: out_of_stock_def)
  show ?thesis
    using product s fresh pid
    by (simp add: checkout_def Let_def insert_order_def or_null_def)
qed

lemma webhook_selects_latest_pending:
  assumes auth: "\<not> rejected (getSettings d) apiKey"
      and amt: "extract_amount n = Inr (Num a)" and nz: "a \<noteq> 0"
      and exp: "token_expiry (getSettings d) now = Inr expiresAt"
  shows "(filter (\<lambda>r. total_amount r = a \<and> status r = ''pending'') (orders d) = []
            \<and> webhook apiKey n now tok d = Inr (Json 200 ''success'' ''No matching order'' None, d))
         \<or> (\<exists>ord d'. ord \<in> set (orders d) \<and> total_amount ord = a \<and> status ord = ''pending''
               \<and> (\<forall>r\<in>set (orders d). total_amount r = a \<and> status r = ''pending''
                      \<longrightarrow> created_at r \<le> created_at ord)
               \<and> webhook apiKey n now tok d
                    = Inr (Json 200 ''success'' ''Payment processed'' (Some (invoice_number ord)), d')
               \<and> orders d' = map (\<lambda>r. if invoice_number r = invoice_number ord
                                        then r\<lparr>status := ''paid'', paid_at := Some (CURRENT_TIMESTAMP now)\<rparr>
                                        else r) (orders d)
               \<and> (distinct (map invoice_number (orders d)) \<longrightarrow>
                    (\<exists>i<length (orders d). orders d ! i = ord
                       \<and> orders d' = (orders d)[i := ord\<lparr>status := ''paid'',
                                                         paid_at := Some (CURRENT_TIMESTAMP now)\<rparr>])))"
proof (cases "find_pending_order (Num a) (orders d)")
  case None
  then have "filter (\<lambda>r. total_amount r = a \<and> status r = ''pending'') (orders d) = []"
    by (simp add: find_pending_order_def latest_None)
  moreover from auth amt nz None
  have "webhook apiKey n now tok d = Inr (Json 200 ''success'' ''No matching order'' None, d)"
    by (simp add: webhook_def webhook_authenticated_def)
  ultimately show ?thesis by blast
next
  case (Some ord)
  let ?d' = "insert_token tok (invoice_number ord) (product_id ord) expiresAt now
               (decrease_stock (product_id ord) (mark_paid (invoice_number ord) now d))"
  let ?pay = "\<lambda>r. r\<lparr>status := ''paid'', paid_at := Some (CURRENT_TIMESTAMP now)\<rparr>"
  have w: "webhook apiKey n now tok d
             = Inr (Json 200 ''success'' ''Payment processed'' (Some (invoice_number ord)), ?d')"
    using auth amt nz exp Some by (simp add: webhook_def webhook_authenticated_def)
  have o: "orders ?d' = map (\<lambda>r. if invoice_number r = invoice_number ord then ?pay r else r) (orders d)"
    by simp
  from find_pending_order_Some[OF Some]
  have q: "ord \<in> set (orders d)" "total_amount ord = a" "status ord = ''pending''"
    "\<forall>r\<in>set (orders d). total_amount r = a \<and> status r = ''pending'' \<longrightarrow> created_at r \<le> created_at ord"
    by blast+
  have u: "distinct (map invoice_number (orders d)) \<longrightarrow>
             (\<exists>i<length (orders d). orders d ! i = ord \<and> orders ?d' = (orders d)[i := ?pay ord])"
  proof
    assume "distinct (map invoice_number (orders d))"
    from update_where_distinct[OF this q(1), of ?pay] show
      "\<exists>i<length (orders d). orders d ! i = ord \<and> orders ?d' = (orders d)[i := ?pay ord]"
      unfolding o .
  qed
  from q w o u show ?thesis by blast
qed

section \<open>Evaluations on the small shop\<close>

lemma show_int_50123: "show_int 50123 = ''50123''"
  by (simp add: show_int_def show_nat.simps)

lemma parseInt10_50123: "parseInt10 ''50123'' = Num 50123"
  by (simp add: parseInt10_def strip_sign_def is_space_def negate_def parse_digits_def
      is_digit_def digit_value_def)

lemma extract_pays_50123: "extract_amount (pays 50123) = Inr (Num 50123)"
  by (simp add: extract_amount_def pays_def js_parseInt10_def show_int_50123 parseInt10_50123)

lemma at_1210: "CURRENT_TIMESTAMP (noon + 600000) = ''2025-01-01 12:10:00''"
  by code_simp

lemma expiry_1310: "token_expiry (map_of (settings shop)) (noon + 600000) = Inr ''2025-01-01T13:10:00.000Z''"
  by code_simp

lemma key_accepted: "\<not> rejected (map_of (settings shop)) (Some ''s3cret'')"
  by code_simp

lemma at_1211: "CURRENT_TIMESTAMP (noon + 660000) = ''2025-01-01 12:11:00''"
  by code_simp

lemma expiry_1311: "token_expiry (map_of (settings shop)) (noon + 660000) = Inr ''2025-01-01T13:11:00.000Z''"
  by code_simp

lemma expires_1310: "Date_parse ''2025-01-01T13:10:00.000Z'' = Num 1735737000000"
  by (simp add: Date_parse_def read_nat_def digit_value_def is_digit_def days_from_civil_def Let_def)

lemma shop_settings:
  assumes "settings d = settings shop"
  shows "\<not> rejected (getSettings d) (Some ''s3cret'')"
    and "token_expiry (getSettings d) (noon + 600000) = Inr ''2025-01-01T13:10:00.000Z''"
    and "token_expiry (getSettings d) (noon + 660000) = Inr ''2025-01-01T13:11:00.000Z''"
  using assms key_accepted expiry_1310 expiry_1311 by (simp_all add: getSettings_def)

lemma settings_of_examples:
  "settings placed = settings shop" "settings placed_twice = settings shop"
  "settings paid = settings shop" "settings paid_second = settings shop"
  "settings last_copy = settings shop" "settings last_copy_sold = settings shop"
  "settings held = settings shop"
  by (simp_all add: placed_def placed_twice_def paid_def paid_second_def last_copy_def
      last_copy_sold_def held_def)

lemma inv2_fields: "invoice_number inv2 = ''INV-2''" "product_id inv2 = ''P1''"
  "invoice_number inv1 = ''INV-1''" "product_id inv1 = ''P1''"
  by (simp_all add: inv2_def inv1_def)

lemma pending_in_placed: "find_pending_order (Num 50123) (orders placed) = Some inv1"
  by (simp add: find_pending_order_def placed_def inv1_def)

lemma pending_in_placed_twice: "find_pending_order (Num 50123) (orders placed_twice) = Some inv2"
  by (simp add: find_pending_order_def placed_twice_def inv1_def inv2_def)

lemma pending_in_paid: "find_pending_order (Num 50123) (orders paid) = None"
  by (simp add: find_pending_order_def paid_def inv1_def)

lemma pending_in_paid_second: "find_pending_order (Num 50123) (orders paid_second) = Some inv1"
  by (simp add: find_pending_order_def paid_second_def inv1_def inv2_def)

lemma pending_in_last_copy: "find_pending_order (Num 50123) (orders last_copy) = Some inv2"
  by (simp add: find_pending_order_def last_copy_def placed_twice_def inv1_def inv2_def)

lemma pending_in_last_copy_sold: "find_pending_order (Num 50123) (orders last_copy_sold) = Some inv1"
  by (simp add: find_pending_order_def last_copy_sold_def paid_second_def inv1_def inv2_def)

lemma pay_placed:
  "webhook (Some ''s3cret'') (pays 50123) (noon + 600000) ''tok1'' placed
     = Inr (Json 200 ''success'' ''Payment processed'' (Some ''INV-1''), paid)"
proof -
  have u: "insert_token ''tok1'' ''INV-1'' ''P1'' ''2025-01-01T13:10:00.000Z'' (noon + 600000)
             (decrease_stock ''P1'' (mark_paid ''INV-1'' (noon + 600000) placed)) = paid"
    by (simp add: insert_token_def decrease_stock_def mark_paid_def at_1210 placed_def paid_def
        shop_def ebook_def inv1_def tok1_def)
  from webhook_matched[OF shop_settings(1)[OF settings_of_examples(1)] extract_pays_50123 _
      pending_in_placed shop_settings(2)[OF settings_of_examples(1)], of "''tok1''"]
  show ?thesis by (simp add: inv2_fields u)
qed

lemma first_delivery:
  "webhook (Some ''s3cret'') (pays 50123) (noon + 600000) ''tokA'' placed_twice
     = Inr (Json 200 ''success'' ''Payment processed'' (Some ''INV-2''), paid_second)"
proof -
  have u: "insert_token ''tokA'' ''INV-2'' ''P1'' ''2025-01-01T13:10:00.000Z'' (noon + 600000)
             (decrease_stock ''P1'' (mark_paid ''INV-2'' (noon + 600000) placed_twice)) = paid_second"
    by (simp add: insert_token_def decrease_stock_def mark_paid_def at_1210 placed_twice_def
        paid_second_def shop_def ebook_def inv1_def inv2_def tokA_def)
  from webhook_matched[OF shop_settings(1)[OF settings_of_examples(2)] extract_pays_50123 _
      pending_in_placed_twice shop_settings(2)[OF settings_of_examples(2)], of "''tokA''"]
  show ?thesis by (simp add: inv2_fields u)
qed

lemma second_delivery:
  "webhook (Some ''s3cret'') (pays 50123) (noon + 660000) ''tokB'' paid_second
     = Inr (Json 200 ''success'' ''Payment processed'' (Some ''INV-1''), paid_both)"
proof -
  have u: "insert_token ''tokB'' ''INV-1'' ''P1'' ''2025-01-01T13:11:00.000Z'' (noon + 660000)
             (decrease_stock ''P1'' (mark_paid ''INV-1'' (noon + 660000) paid_second)) = paid_both"
    by (simp add: insert_token_def decrease_stock_def mark_paid_def at_1211 paid_second_def
        paid_both_def shop_def ebook_def inv1_def inv2_def tokA_def tokB_def)
  from webhook_matched[OF shop_settings(1)[OF settings_of_examples(4)] extract_pays_50123 _
      pending_in_paid_second shop_settings(3)[OF settings_of_examples(4)], of "''tokB''"]
  show ?thesis by (simp add: inv2_fields u)
qed

lemma last_copy_first:
  "webhook (Some ''s3cret'') (pays 50123) (noon + 600000) ''tokA'' last_copy
     = Inr (Json 200 ''success'' ''Payment processed'' (Some ''INV-2''), last_copy_sold)"
proof -
  have u: "insert_token ''tokA'' ''INV-2'' ''P1'' ''2025-01-01T13:10:00.000Z'' (noon + 600000)
             (decrease_stock ''P1'' (mark_paid ''INV-2'' (noon + 600000) last_copy)) = last_copy_sold"
    by (simp add: insert_token_def decrease_stock_def mark_paid_def at_1210 last_copy_def
        last_copy_sold_def placed_twice_def paid_second_def shop_def ebook_def inv1_def inv2_def tokA_def)
  from webhook_matched[OF shop_settings(1)[OF settings_of_examples(5)] extract_pays_50123 _
      pending_in_last_copy shop_settings(2)[OF settings_of_examples(5)], of "''tokA''"]
  show ?thesis by (simp add: inv2_fields u)
qed

lemma last_copy_second:
  "webhook (Some ''s3cret'') (pays 50123) (noon + 660000) ''tokB'' last_copy_sold
     = Inr (Json 200 ''success'' ''Payment processed'' (Some ''INV-1''), last_copy_sold_twice)"
proof -
  have u: "insert_token ''tokB'' ''INV-1'' ''P1'' ''2025-01-01T13:11:00.000Z'' (noon + 660000)
             (decrease_stock ''P1'' (mark_paid ''INV-1'' (noon + 660000) last_copy_sold)) = last_copy_sold_twice"
    by (simp add: insert_token_def decrease_stock_def mark_paid_def at_1211 last_copy_sold_def
        last_copy_sold_twice_def paid_second_def paid_both_def shop_def ebook_def inv1_def inv2_def
        tokA_def tokB_def)
  from webhook_matched[OF shop_settings(1)[OF settings_of_examples(6)] extract_pays_50123 _
      pending_in_last_copy_sold shop_settings(3)[OF settings_of_examples(6)], of "''tokB''"]
  show ?thesis by (simp add: inv2_fields u)
qed

lemma checkout_by_email:
  "checkout plain ''P1'' by_email noon ''INV-1'' 122 None shop = (Render ''checkout'' (Some inv1), placed)"
  by code_simp

lemma checkout_by_phone:
  "checkout plain ''P1'' by_phone noon ''INV-1'' 122 None shop = (Send 400 ''Email is required'', shop)"
  by code_simp

lemma sweep_after_10_minutes: "cleanupExpiredOrders (noon + 600000) placed = Inr shop"
  by code_simp

lemma sweep_after_90_minutes: "cleanupExpiredOrders (noon + 5400000) placed = Inr shop"
  by code_simp

lemma token_data_held: "token_data ''tok1'' held = Some (tok1, inv1, ebook)"
  by (simp add: token_data_def held_def placed_def shop_def tok1_def inv1_def ebook_def)

lemma token_data_paid:
  "token_data ''tok1'' paid
     = Some (tok1, inv1\<lparr>status := ''paid'', paid_at := Some ''2025-01-01 12:10:00''\<rparr>, ebook\<lparr>stock := Some 4\<rparr>)"
  by (simp add: token_data_def paid_def shop_def tok1_def inv1_def ebook_def)

lemma download_held_expired:
  "download ''tok1'' (noon + 4200001) held = (Redirect ''/expired-link'', held)"
  by (simp add: download_def token_data_held expires_1310 is_after_def noon_def tok1_def)

lemma download_held_forbidden:
  "download ''tok1'' (noon + 4200000) held = (Send 403 ''Order is not paid yet'', held)"
  by (simp add: download_def token_data_held expires_1310 is_after_def noon_def tok1_def inv1_def)

lemma numeric_text_throws: "extract_amount numeric_text = Inl TypeError"
  by (simp add: extract_amount_def numeric_text_def)

lemma createOrder_bot:
  "createOrder ebook (Some ''ani@example.com'') (Some ''6281234567890'') noon ''INV-1'' 122 None shop
     = (Inr inv1_bot, shop\<lparr>orders := [inv1_bot]\<rparr>)"
  by code_simp

lemma run_checkout_pay:
  "run [Checkout plain ''P1'' by_email noon ''INV-1'' 122 None,
        Webhook (Some ''s3cret'') (pays 50123) (noon + 600000) ''tok1''] shop = Inr paid"
  by (simp add: checkout_by_email pay_placed)

lemma buyer_not_whitelisted: "buyer \<notin> set (whitelistedIPs generalLimiter)"
  by (simp add: buyer_def generalLimiter_def)

lemma at_121140: "CURRENT_TIMESTAMP (noon + 700000) = ''2025-01-01 12:11:40''"
  by code_simp

lemma tok1_unexpired_at_121140: "\<not> is_after (noon + 700000) (Date_parse (expires_at tok1))"
  by (simp add: tok1_def expires_1310 is_after_def noon_def)

lemma started_fields:
  "database (started d) = d" "general_hits (started d) = []"
  "checkout_hits (started d) = []" "webhook_hits (started d) = []"
  by (simp_all add: started_def)

lemma first_redemption:
  "download_route buyer ''tok1'' (noon + 700000) (started paid)
     = (Download ''/uploads/ebook.pdf'' ''E-Book'', redeemed 1)"
proof -
  have r: "rateLimit generalLimiter buyer (noon + 700000) []
             = (True, [(buyer, 1, noon + 700000 + 15 * 60 * 1000)])"
    using buyer_not_whitelisted
    by (simp add: rateLimit_def increment_def) (simp add: generalLimiter_def)
  have d: "download ''tok1'' (noon + 700000) paid
             = (Download ''/uploads/ebook.pdf'' ''E-Book'',
                paid\<lparr>download_tokens :=
                  [tok1\<lparr>download_count := 1, last_download_at := Some ''2025-01-01 12:11:40'',
                         is_used := True\<rparr>]\<rparr>)"
    by (simp add: download_def token_data_paid tok1_unexpired_at_121140 deliver_def ebook_def
        count_download_def at_121140) (simp add: paid_def tok1_def at_121140)
  show ?thesis
    by (simp add: download_route_def started_fields r d) (simp add: started_def redeemed_def)
qed

lemma next_redemption:
  assumes "1 \<le> k" and "k < 100"
  shows "download_route buyer ''tok1'' (noon + 700000) (redeemed k)
           = (Download ''/uploads/ebook.pdf'' ''E-Book'', redeemed (Suc k))"
proof -
  have r: "rateLimit generalLimiter buyer (noon + 700000) (general_hits (redeemed k))
             = (True, [(buyer, Suc k, noon + 700000 + 15 * 60 * 1000)])"
    using buyer_not_whitelisted assms
    by (simp add: rateLimit_def increment_def redeemed_def) (simp add: generalLimiter_def)
  let ?tk = "tok1\<lparr>download_count := int k, last_download_at := Some ''2025-01-01 12:11:40'', is_used := True\<rparr>"
  have td: "token_data ''tok1'' (database (redeemed k))
     = Some (?tk, inv1\<lparr>status := ''paid'', paid_at := Some ''2025-01-01 12:10:00''\<rparr>, ebook\<lparr>stock := Some 4\<rparr>)"
    by (simp add: token_data_def redeemed_def paid_def shop_def tok1_def inv1_def ebook_def)
  have e: "expires_at ?tk = expires_at tok1" by simp
  have d: "download ''tok1'' (noon + 700000) (database (redeemed k))
             = (Download ''/uploads/ebook.pdf'' ''E-Book'', database (redeemed (Suc k)))"
    by (simp add: download_def td e tok1_unexpired_at_121140 deliver_def ebook_def
        count_download_def at_121140) (simp add: redeemed_def paid_def tok1_def at_121140)
  show ?thesis
    by (simp add: download_route_def r d) (simp add: redeemed_def)
qed

lemma more_redemptions:
  assumes "1 \<le> k" and "k + n \<le> 100"
  shows "redeems ''tok1'' (replicate n (buyer, noon + 700000)) (redeemed k) = redeemed (k + n)"
  using assms
proof (induction n arbitrary: k)
  case 0
  then show ?case by simp
next
  case (Suc n)
  from Suc.prems have "k < 100" by simp
  from next_redemption[OF Suc.prems(1) this] Suc.IH[of "Suc k"] Suc.prems
  show ?case by simp
qed

lemma hundred_redemptions:
  "redeems ''tok1'' (replicate 100 (buyer, noon + 700000)) (started paid) = redeemed 100"
proof -
  have "replicate 100 (buyer, noon + 700000) = (buyer, noon + 700000) # replicate 99 (buyer, noon + 700000)"
    by (simp add: numeral_eq_Suc)
  with first_redemption more_redemptions[of 1 99] show ?thesis by simp
qed

lemma refused_after_hundred:
  "\<not> fst (rateLimit generalLimiter buyer (noon + 700000) (general_hits (redeemed 100)))"
  using buyer_not_whitelisted
  by (simp add: rateLimit_def increment_def redeemed_def) (simp add: generalLimiter_def)

lemma general_message: "message generalLimiter = ''Too many requests from this IP, please try again later''"
  by (simp add: generalLimiter_def)

lemma checkout_message: "message checkoutLimiter = ''Too many checkout attempts, please try again later''"
  by (simp add: checkoutLimiter_def)

lemma eleventh_checkout:
  "fst (rateLimit generalLimiter buyer (noon + 60000) (general_hits ten_checkouts))"
  "\<not> fst (rateLimit checkoutLimiter buyer (noon + 60000) (checkout_hits ten_checkouts))"
  using buyer_not_whitelisted
  by (simp_all add: rateLimit_def increment_def ten_checkouts_def)
     (simp_all add: generalLimiter_def checkoutLimiter_def)

lemma two_redemptions:
  "redeems ''tok1'' (replicate 2 (buyer, noon + 700000)) (started paid) = redeemed 2"
proof -
  have "replicate 2 (buyer, noon + 700000) = (buyer, noon + 700000) # replicate 1 (buyer, noon + 700000)"
    by (simp add: numeral_eq_Suc)
  with first_redemption more_redemptions[of 1 1] show ?thesis by (simp add: numeral_2_eq_2)
qed

lemma admitted_after_the_window:
  "fst (rateLimit generalLimiter buyer (noon + 4200000) (general_hits (redeemed 2)))"
  "fst (rateLimit generalLimiter buyer (noon + 4200001) (general_hits (redeemed 2)))"
  using buyer_not_whitelisted
  by (simp_all add: rateLimit_def increment_def redeemed_def)
     (simp_all add: generalLimiter_def)

section \<open>The claims\<close>

text \<open>
  C1. For every webhook notification from which an amount \<open>a\<close> is extracted (so the
  request was let through by the rate limiters and passed the key check, and \<open>a\<close> is not
  0): when no pending order has \<open>a\<close> as its total, the answer is "No matching order"
  and the store is unchanged; otherwise one order is selected, whose \<open>total_amount\<close> is
  exactly \<open>a\<close> and whose status is \<open>pending\<close>, the one with the greatest
  \<open>created_at\<close> when several qualify, and that order is set to \<open>paid\<close> with a paid
  timestamp. Invoice numbers being unique in the table, the update rewrites that one
  row. The expiry setting is one from which a date can be computed (otherwise
  \<open>toISOString\<close> throws before the handler answers).
\<close>

theorem C1_match_latest_pending_and_pay:
  assumes general: "fst (rateLimit generalLimiter ip now (general_hits s))"
      and route: "fst (rateLimit webhookLimiter ip now (webhook_hits s))"
      and auth: "\<not> rejected (getSettings (database s)) apiKey"
      and amt: "extract_amount n = Inr (Num a)" and nz: "a \<noteq> 0"
      and exp: "token_expiry (getSettings (database s)) now = Inr expiresAt"
  shows "(filter (\<lambda>r. total_amount r = a \<and> status r = ''pending'') (orders (database s)) = []
            \<and> (\<exists>s'. webhook_route ip apiKey n now tok s
                        = Inr (Json 200 ''success'' ''No matching order'' None, s')
                    \<and> database s' = database s))
         \<or> (\<exists>ord s'. ord \<in> set (orders (database s)) \<and> total_amount ord = a \<and> status ord = ''pending''
               \<and> (\<forall>r\<in>set (orders (database s)). total_amount r = a \<and> status r = ''pending''
                      \<longrightarrow> created_at r \<le> created_at ord)
               \<and> webhook_route ip apiKey n now tok s
                    = Inr (Json 200 ''success'' ''Payment processed'' (Some (invoice_number ord)), s')
               \<and> orders (database s')
                    = map (\<lambda>r. if invoice_number r = invoice_number ord
                               then r\<lparr>status := ''paid'', paid_at := Some (CURRENT_TIMESTAMP now)\<rparr>
                               else r) (orders (database s))
               \<and> (distinct (map invoice_number (orders (database s))) \<longrightarrow>
                    (\<exists>i<length (orders (database s)). orders (database s) ! i = ord
                       \<and> orders (database s')
                           = (orders (database s))[i := ord\<lparr>status := ''paid'',
                                                   paid_at := Some (CURRENT_TIMESTAMP now)\<rparr>])))"
proof -
  from webhook_selects_latest_pending[OF auth amt nz exp, of tok]
  consider
    (none) "filter (\<lambda>r. total_amount r = a \<and> status r = ''pending'') (orders (database s)) = []"
      "webhook apiKey n now tok (database s) = Inr (Json 200 ''success'' ''No matching order'' None, database s)"
  | (some) ord d' where "ord \<in> set (orders (database s))" "total_amount ord = a" "status ord = ''pending''"
      "\<forall>r\<in>set (orders (database s)). total_amount r = a \<and> status r = ''pending''
          \<longrightarrow> created_at r \<le> created_at ord"
      "webhook apiKey n now tok (database s)
         = Inr (Json 200 ''success'' ''Payment processed'' (Some (invoice_number ord)), d')"
      "orders d' = map (\<lambda>r. if invoice_number r = invoice_number ord
                             then r\<lparr>status := ''paid'', paid_at := Some (CURRENT_TIMESTAMP now)\<rparr>
                             else r) (orders (database s))"
      "distinct (map invoice_number (orders (database s))) \<longrightarrow>
         (\<exists>i<length (orders (database s)). orders (database s) ! i = ord
            \<and> orders d' = (orders (database s))[i := ord\<lparr>status := ''paid'',
                                                   paid_at := Some (CURRENT_TIMESTAMP now)\<rparr>])"
    by blast
  then show ?thesis
  proof cases
    case none
    from webhook_route_admitted[OF general route none(2)] none(1) show ?thesis by blast
  next
    case some
    from webhook_route_admitted[OF general route some(5)] obtain s' where
      "webhook_route ip apiKey n now tok s
         = Inr (Json 200 ''success'' ''Payment processed'' (Some (invoice_number ord)), s')"
      "database s' = d'" by blast
    with some show ?thesis by blast
  qed
qed

theorem C1_match_latest_pending_and_pay_witness:
  "fst (rateLimit generalLimiter notifier (noon + 600000) (general_hits (started placed_twice)))
   \<and> fst (rateLimit webhookLimiter notifier (noon + 600000) (webhook_hits (started placed_twice)))
   \<and> \<not> rejected (getSettings (database (started placed_twice))) (Some ''s3cret'')
   \<and> extract_amount (pays 50123) = Inr (Num 50123)
   \<and> (50123::int) \<noteq> 0
   \<and> token_expiry (getSettings (database (started placed_twice))) (noon + 600000)
        = Inr ''2025-01-01T13:10:00.000Z''
   \<and> filter (\<lambda>r. total_amount r = 50123 \<and> status r = ''pending'') (orders (database (started placed_twice)))
        = [inv1, inv2]
   \<and> created_at inv1 < created_at inv2
   \<and> (\<exists>s'. webhook_route notifier (Some ''s3cret'') (pays 50123) (noon + 600000) ''tok1'' (started placed_twice)
              = Inr (Json 200 ''success'' ''Payment processed'' (Some ''INV-2''), s')
           \<and> orders (database s')
                = [inv1, inv2\<lparr>status := ''paid'', paid_at := Some ''2025-01-01 12:10:00''\<rparr>])"
proof -
  have g: "fst (rateLimit generalLimiter notifier (noon + 600000) (general_hits (started placed_twice)))"
    unfolding started_fields by (rule first_request_admitted[OF limits_positive(1)])
  have w: "fst (rateLimit webhookLimiter notifier (noon + 600000) (webhook_hits (started placed_twice)))"
    unfolding started_fields by (rule first_request_admitted[OF limits_positive(3)])
  have h1: "\<not> rejected (getSettings (database (started placed_twice))) (Some ''s3cret'')"
    unfolding started_fields by (rule shop_settings(1)[OF settings_of_examples(2)])
  have h3: "(50123::int) \<noteq> 0" by simp
  have h4: "token_expiry (getSettings (database (started placed_twice))) (noon + 600000)
              = Inr ''2025-01-01T13:10:00.000Z''"
    unfolding started_fields by (rule shop_settings(2)[OF settings_of_examples(2)])
  have f: "filter (\<lambda>r. total_amount r = 50123 \<and> status r = ''pending'') (orders (database (started placed_twice)))
             = [inv1, inv2]"
    by (simp add: started_fields placed_twice_def inv1_def inv2_def)
  have c: "created_at inv1 < created_at inv2" by (simp add: inv1_def inv2_def)
  have ne: "[inv1, inv2] \<noteq> []" by simp
  have i1: "invoice_number inv1 \<noteq> invoice_number inv2" by (simp add: inv1_def inv2_def)
  from C1_match_latest_pending_and_pay[OF g w h1 extract_pays_50123 h3 h4, of "''tok1''"]
  obtain ord s' where
    m: "ord \<in> set (orders (database (started placed_twice)))"
    and l: "\<forall>r\<in>set (orders (database (started placed_twice))).
              total_amount r = 50123 \<and> status r = ''pending'' \<longrightarrow> created_at r \<le> created_at ord"
    and r: "webhook_route notifier (Some ''s3cret'') (pays 50123) (noon + 600000) ''tok1'' (started placed_twice)
              = Inr (Json 200 ''success'' ''Payment processed'' (Some (invoice_number ord)), s')"
    and o: "orders (database s')
              = map (\<lambda>r. if invoice_number r = invoice_number ord
                         then r\<lparr>status := ''paid'', paid_at := Some (CURRENT_TIMESTAMP (noon + 600000))\<rparr>
                         else r) (orders (database (started placed_twice)))"
    unfolding f using ne by blast
  have os: "orders (database (started placed_twice)) = [inv1, inv2]"
    by (simp add: started_fields placed_twice_def)
  have p: "total_amount inv2 = 50123 \<and> status inv2 = ''pending''" by (simp add: inv1_def inv2_def)
  from l p have "created_at inv2 \<le> created_at ord" unfolding os by simp
  with c have "ord \<noteq> inv1" by auto
  with m have ord: "ord = inv2" unfolding os by simp
  have e: "webhook_route notifier (Some ''s3cret'') (pays 50123) (noon + 600000) ''tok1'' (started placed_twice)
              = Inr (Json 200 ''success'' ''Payment processed'' (Some ''INV-2''), s')"
    using r unfolding ord inv2_fields .
  have e2: "orders (database s')
                = [inv1, inv2\<lparr>status := ''paid'', paid_at := Some ''2025-01-01 12:10:00''\<rparr>]"
    using o i1 unfolding ord os at_1210 by simp
  show ?thesis
    apply (rule conjI[OF g], rule conjI[OF w], rule conjI[OF h1], rule conjI[OF extract_pays_50123])
    apply (rule conjI[OF h3], rule conjI[OF h4], rule conjI[OF f], rule conjI[OF c])
    apply (rule exI[of _ s'])
    apply (rule conjI[OF e e2])
    done
qed

text \<open>
  C2, as claimed: a second delivery of the same payload, for an amount whose first
  delivery paid an order, changes nothing. It fails when two pending orders carry the
  same total (both drew unique code 123 on the same product): the first delivery pays
  \<open>INV-2\<close>, the later order, and the second delivery of the same payload pays \<open>INV-1\<close>,
  takes the stock from 4 to 3 and mints a second token.
\<close>

theorem C2_second_delivery_pays_another_order:
  "webhook (Some ''s3cret'') (pays 50123) (noon + 600000) ''tokA'' placed_twice
     = Inr (Json 200 ''success'' ''Payment processed'' (Some ''INV-2''), paid_second)
   \<and> webhook (Some ''s3cret'') (pays 50123) (noon + 660000) ''tokB'' paid_second
     = Inr (Json 200 ''success'' ''Payment processed'' (Some ''INV-1''), paid_both)
   \<and> map status (orders paid_second) = [''pending'', ''paid'']
   \<and> map status (orders paid_both) = [''paid'', ''paid'']
   \<and> map stock (products paid_second) = [Some 4]
   \<and> map stock (products paid_both) = [Some 3]
   \<and> map token (download_tokens paid_second) = [''tokA'']
   \<and> map token (download_tokens paid_both) = [''tokA'', ''tokB'']"
proof -
  have "map status (orders paid_second) = [''pending'', ''paid'']"
    "map status (orders paid_both) = [''paid'', ''paid'']"
    "map stock (products paid_second) = [Some 4]"
    "map stock (products paid_both) = [Some 3]"
    "map token (download_tokens paid_second) = [''tokA'']"
    "map token (download_tokens paid_both) = [''tokA'', ''tokB'']"
    by (simp_all add: paid_second_def paid_both_def inv1_def inv2_def tokA_def tokB_def)
  with first_delivery second_delivery show ?thesis by (intro conjI)
qed

text \<open>
  C2, amended: when at most one pending order had the delivered amount as its total, a
  second delivery of the same payload (at any later time, with any freshly generated
  token) after the one that paid it finds no match: it is answered with success and
  "No matching order", and the store, hence every order status, every stock and the
  token table, is exactly as the first delivery left it.
\<close>

theorem C2_second_delivery_no_match_when_amount_unique:
  assumes first: "webhook apiKey n now1 tokA' d
                    = Inr (Json 200 ''success'' ''Payment processed'' (Some i), d1)"
      and amt: "extract_amount n = Inr (Num a)"
      and one: "length (filter (\<lambda>r. total_amount r = a \<and> status r = ''pending'') (orders d)) \<le> 1"
  shows "webhook apiKey n now2 tokB' d1 = Inr (Json 200 ''success'' ''No matching order'' None, d1)"
proof -
  let ?P = "\<lambda>r. total_amount r = a \<and> status r = ''pending''"
  from webhook_processed[OF first] amt obtain ord expiresAt where
    nz: "Num a \<noteq> Num 0" and f: "find_pending_order (Num a) (orders d) = Some ord"
    and d1: "d1 = insert_token tokA' (invoice_number ord) (product_id ord) expiresAt now1
                    (decrease_stock (product_id ord) (mark_paid (invoice_number ord) now1 d))"
    by auto
  have o: "orders d1 = map (\<lambda>r. if invoice_number r = invoice_number ord
                                  then r\<lparr>status := ''paid'', paid_at := Some (CURRENT_TIMESTAMP now1)\<rparr>
                                  else r) (orders d)"
    unfolding d1 by simp
  have s: "getSettings d1 = getSettings d"
    unfolding d1 by (simp add: getSettings_def)
  from f have "latest (filter ?P (orders d)) = Some ord"
    by (simp add: find_pending_order_def)
  from latest_mem[OF this] have m: "ord \<in> set (filter ?P (orders d))" .
  have only: "r = ord" if "r \<in> set (filter ?P (orders d))" for r
    using at_most_one[OF one that m] .
  have "filter ?P (orders d1) = []"
  proof (rule ccontr)
    assume "filter ?P (orders d1) \<noteq> []"
    then obtain r' where r': "r' \<in> set (orders d1)" "?P r'"
      by (auto simp: filter_empty_conv)
    from r'(1) obtain r where r: "r \<in> set (orders d)"
      and e: "r' = (if invoice_number r = invoice_number ord
                    then r\<lparr>status := ''paid'', paid_at := Some (CURRENT_TIMESTAMP now1)\<rparr> else r)"
      unfolding o by auto
    show False
    proof (cases "invoice_number r = invoice_number ord")
      case True
      with e r'(2) show False by simp
    next
      case False
      with e r'(2) r have "r \<in> set (filter ?P (orders d))" by simp
      from only[OF this] False show False by simp
    qed
  qed
  then have none: "find_pending_order (Num a) (orders d1) = None"
    by (simp add: find_pending_order_def)
  from webhook_not_rejected[OF first] have "\<not> rejected (getSettings d1) apiKey"
    unfolding s .
  from webhook_unmatched[OF this amt nz none] show ?thesis .
qed

theorem C2_second_delivery_no_match_when_amount_unique_witness:
  "webhook (Some ''s3cret'') (pays 50123) (noon + 600000) ''tok1'' placed
     = Inr (Json 200 ''success'' ''Payment processed'' (Some ''INV-1''), paid)
   \<and> extract_amount (pays 50123) = Inr (Num 50123)
   \<and> length (filter (\<lambda>r. total_amount r = 50123 \<and> status r = ''pending'') (orders placed)) \<le> 1
   \<and> webhook (Some ''s3cret'') (pays 50123) (noon + 660000) ''tok2'' paid
     = Inr (Json 200 ''success'' ''No matching order'' None, paid)"
proof -
  have one: "length (filter (\<lambda>r. total_amount r = 50123 \<and> status r = ''pending'') (orders placed)) \<le> 1"
    by (simp add: placed_def)
  from C2_second_delivery_no_match_when_amount_unique[OF pay_placed extract_pays_50123 one]
  have "webhook (Some ''s3cret'') (pays 50123) (noon + 660000) ''tok2'' paid
          = Inr (Json 200 ''success'' ''No matching order'' None, paid)" .
  with pay_placed extract_pays_50123 one show ?thesis by (intro conjI)
qed

text \<open>
  C3 says that a pending order created ten minutes before the sweep remains. On the
  code it does not. The sweep compares \<open>created_at\<close>, which SQLite wrote as
  \<open>2025-01-01 12:00:00\<close>, with the ISO string \<open>2025-01-01T11:10:00.000Z\<close> as text;
  the two agree on the date, and then a space sorts before the letter \<open>T\<close>, so the
  order counts as older than one hour ago and is deleted. The order below is placed at
  noon and swept at ten past noon.
\<close>

theorem C3_sweep_deletes_order_placed_ten_minutes_ago:
  "checkout plain ''P1'' by_email noon ''INV-1'' 122 None shop = (Render ''checkout'' (Some inv1), placed)
   \<and> map status (orders placed) = [''pending'']
   \<and> map created_at (orders placed) = [''2025-01-01 12:00:00'']
   \<and> toISOString (Num (noon + 600000 - 60 * 60 * 1000)) = Inr ''2025-01-01T11:10:00.000Z''
   \<and> cleanupExpiredOrders (noon + 600000) placed = Inr (placed\<lparr>orders := []\<rparr>)"
proof -
  have 1: "map status (orders placed) = [''pending'']"
    and 2: "map created_at (orders placed) = [''2025-01-01 12:00:00'']"
    by (simp_all add: placed_def inv1_def)
  have 3: "toISOString (Num (noon + 600000 - 60 * 60 * 1000)) = Inr ''2025-01-01T11:10:00.000Z''"
    by code_simp
  have 4: "placed\<lparr>orders := []\<rparr> = shop" by (simp add: placed_def shop_def)
  from checkout_by_email 1 2 3 sweep_after_10_minutes[folded 4] show ?thesis by (intro conjI)
qed

text \<open>
  C4, as claimed: a checkout for an existing, active, in-stock product with at least
  one non-empty contact channel succeeds, whichever channel it is. It fails for a
  buyer who gives a phone number and no e-mail address: the first request of a buyer,
  well within the rate limits, is answered 400 "Email is required" and creates nothing.
\<close>

theorem C4_phone_only_checkout_is_rejected:
  "fst (rateLimit generalLimiter buyer noon (general_hits (started shop)))
   \<and> fst (rateLimit checkoutLimiter buyer noon (checkout_hits (started shop)))
   \<and> nonempty (sanitizePhone plain (body_customer_whatsapp by_phone))
   \<and> find (\<lambda>p. id' p = ''P1'' \<and> is_active p) (products (database (started shop))) = Some ebook
   \<and> stock ebook = Some 5
   \<and> fst (checkout_route buyer plain ''P1'' by_phone noon ''INV-1'' 122 None (started shop))
        = Send 400 ''Email is required''
   \<and> database (snd (checkout_route buyer plain ''P1'' by_phone noon ''INV-1'' 122 None (started shop))) = shop"
proof -
  have g: "fst (rateLimit generalLimiter buyer noon (general_hits (started shop)))"
    unfolding started_fields by (rule first_request_admitted[OF limits_positive(1)])
  have c: "fst (rateLimit checkoutLimiter buyer noon (checkout_hits (started shop)))"
    unfolding started_fields by (rule first_request_admitted[OF limits_positive(2)])
  have 1: "nonempty (sanitizePhone plain (body_customer_whatsapp by_phone))"
    by (simp add: nonempty_def plain_def by_phone_def)
  have 2: "find (\<lambda>p. id' p = ''P1'' \<and> is_active p) (products (database (started shop))) = Some ebook"
    by (simp add: started_fields shop_def ebook_def)
  have 3: "stock ebook = Some 5" by (simp add: ebook_def)
  have 4: "fst (checkout_route buyer plain ''P1'' by_phone noon ''INV-1'' 122 None (started shop))
        = Send 400 ''Email is required''"
    unfolding checkout_route_admitted(1)[OF g c] started_fields checkout_by_phone by simp
  have 5: "database (snd (checkout_route buyer plain ''P1'' by_phone noon ''INV-1'' 122 None (started shop))) = shop"
    unfolding checkout_route_admitted(2)[OF g c] started_fields checkout_by_phone by simp
  from g c 1 2 3 4 5 show ?thesis by (intro conjI)
qed

text \<open>
  C4, amended: for a checkout that names an existing, active product with stock above
  zero, and whose generated invoice number is not in use: if the rate limiters let the
  request through (at most 100 requests in 15 minutes and at most 10 checkouts in an
  hour from one address), the order is created as \<open>pending\<close> exactly when the sanitized
  e-mail address is non-empty, whatever the phone number and chat handle are, and
  with an empty e-mail address the request is rejected with 400 "Email is required";
  a request over a limit is answered 429. In both rejections the store is unchanged.
\<close>

theorem C4_checkout_with_email_creates_pending_order:
  assumes product: "find (\<lambda>p. id' p = productId \<and> is_active p) (products (database s)) = Some product"
      and in_stock: "stock product = Some n" "0 < n"
      and fresh: "invoiceNumber \<notin> set (map invoice_number (orders (database s)))"
  shows "(fst (rateLimit generalLimiter ip now (general_hits s))
          \<and> fst (rateLimit checkoutLimiter ip now (checkout_hits s))
          \<and> nonempty (sanitizeEmail san (body_customer_email body)) \<longrightarrow>
            (\<exists>row. fst (checkout_route ip san productId body now invoiceNumber r qrisResponse s)
                      = Render ''checkout'' (Some row)
                  \<and> database (snd (checkout_route ip san productId body now invoiceNumber r qrisResponse s))
                      = (database s)\<lparr>orders := orders (database s) @ [row]\<rparr>
                  \<and> status row = ''pending'' \<and> invoice_number row = invoiceNumber
                  \<and> product_id row = productId
                  \<and> customer_email row = sanitizeEmail san (body_customer_email body)))
         \<and> (fst (rateLimit generalLimiter ip now (general_hits s))
             \<and> fst (rateLimit checkoutLimiter ip now (checkout_hits s))
             \<and> \<not> nonempty (sanitizeEmail san (body_customer_email body)) \<longrightarrow>
              fst (checkout_route ip san productId body now invoiceNumber r qrisResponse s)
                = Send 400 ''Email is required''
              \<and> database (snd (checkout_route ip san productId body now invoiceNumber r qrisResponse s))
                  = database s)
         \<and> (\<not> fst (rateLimit generalLimiter ip now (general_hits s)) \<longrightarrow>
              fst (checkout_route ip san productId body now invoiceNumber r qrisResponse s)
                = Send 429 (message generalLimiter)
              \<and> database (snd (checkout_route ip san productId body now invoiceNumber r qrisResponse s))
                  = database s)
         \<and> (fst (rateLimit generalLimiter ip now (general_hits s))
             \<and> \<not> fst (rateLimit checkoutLimiter ip now (checkout_hits s)) \<longrightarrow>
              fst (checkout_route ip san productId body now invoiceNumber r qrisResponse s)
                = Send 429 (message checkoutLimiter)
              \<and> database (snd (checkout_route ip san productId body now invoiceNumber r qrisResponse s))
                  = database s)"
proof -
  note c = checkout_outcome[OF product in_stock fresh, of san body now r qrisResponse]
  show ?thesis
  proof (intro conjI impI)
    assume a: "fst (rateLimit generalLimiter ip now (general_hits s))
          \<and> fst (rateLimit checkoutLimiter ip now (checkout_hits s))
          \<and> nonempty (sanitizeEmail san (body_customer_email body))"
    with c obtain row where
      "checkout san productId body now invoiceNumber r qrisResponse (database s)
         = (Render ''checkout'' (Some row), (database s)\<lparr>orders := orders (database s) @ [row]\<rparr>)"
      "status row = ''pending''" "invoice_number row = invoiceNumber" "product_id row = productId"
      "customer_email row = sanitizeEmail san (body_customer_email body)"
      by blast
    with a show "\<exists>row. fst (checkout_route ip san productId body now invoiceNumber r qrisResponse s)
                      = Render ''checkout'' (Some row)
                  \<and> database (snd (checkout_route ip san productId body now invoiceNumber r qrisResponse s))
                      = (database s)\<lparr>orders := orders (database s) @ [row]\<rparr>
                  \<and> status row = ''pending'' \<and> invoice_number row = invoiceNumber
                  \<and> product_id row = productId
                  \<and> customer_email row = sanitizeEmail san (body_customer_email body)"
      by (simp add: checkout_route_admitted)
  next
    assume a: "fst (rateLimit generalLimiter ip now (general_hits s))
             \<and> fst (rateLimit checkoutLimiter ip now (checkout_hits s))
             \<and> \<not> nonempty (sanitizeEmail san (body_customer_email body))"
    with c have e: "checkout san productId body now invoiceNumber r qrisResponse (database s)
                = (Send 400 ''Email is required'', database s)" by blast
    from a e show "fst (checkout_route ip san productId body now invoiceNumber r qrisResponse s)
                = Send 400 ''Email is required''"
      by (simp add: checkout_route_admitted)
    from a e show "database (snd (checkout_route ip san productId body now invoiceNumber r qrisResponse s))
                  = database s"
      by (simp add: checkout_route_admitted)
  next
    assume a: "\<not> fst (rateLimit generalLimiter ip now (general_hits s))"
    from checkout_route_refused(1)[OF a]
    show "fst (checkout_route ip san productId body now invoiceNumber r qrisResponse s)
                = Send 429 (message generalLimiter)"
      and "database (snd (checkout_route ip san productId body now invoiceNumber r qrisResponse s))
                  = database s"
      by blast+
  next
    assume a: "fst (rateLimit generalLimiter ip now (general_hits s))
             \<and> \<not> fst (rateLimit checkoutLimiter ip now (checkout_hits s))"
    then have 1: "fst (rateLimit generalLimiter ip now (general_hits s))"
      and 2: "\<not> fst (rateLimit checkoutLimiter ip now (checkout_hits s))" by blast+
    from checkout_route_refused(2)[OF 1 2]
    show "fst (checkout_route ip san productId body now invoiceNumber r qrisResponse s)
                = Send 429 (message checkoutLimiter)"
      and "database (snd (checkout_route ip san productId body now invoiceNumber r qrisResponse s))
                  = database s"
      by blast+
  qed
qed

theorem C4_checkout_with_email_creates_pending_order_witness:
  "find (\<lambda>p. id' p = ''P1'' \<and> is_active p) (products (database (started shop))) = Some ebook
   \<and> stock ebook = Some 5 \<and> (0::int) < 5
   \<and> ''INV-1'' \<notin> set (map invoice_number (orders (database (started shop))))
   \<and> fst (rateLimit generalLimiter buyer noon (general_hits (started shop)))
   \<and> fst (rateLimit checkoutLimiter buyer noon (checkout_hits (started shop)))
   \<and> nonempty (sanitizeEmail plain (body_customer_email by_email))
   \<and> (\<exists>row. fst (checkout_route buyer plain ''P1'' by_email noon ''INV-1'' 122 None (started shop))
               = Render ''checkout'' (Some row)
           \<and> database (snd (checkout_route buyer plain ''P1'' by_email noon ''INV-1'' 122 None (started shop)))
               = (database (started shop))\<lparr>orders := orders (database (started shop)) @ [row]\<rparr>
           \<and> status row = ''pending'')
   \<and> \<not> nonempty (sanitizeEmail plain (body_customer_email by_phone))
   \<and> fst (checkout_route buyer plain ''P1'' by_phone noon ''INV-1'' 122 None (started shop))
        = Send 400 ''Email is required''
   \<and> find (\<lambda>p. id' p = ''P1'' \<and> is_active p) (products (database ten_checkouts)) = Some ebook
   \<and> ''INV-1'' \<notin> set (map invoice_number (orders (database ten_checkouts)))
   \<and> fst (rateLimit generalLimiter buyer (noon + 60000) (general_hits ten_checkouts))
   \<and> \<not> fst (rateLimit checkoutLimiter buyer (noon + 60000) (checkout_hits ten_checkouts))
   \<and> fst (checkout_route buyer plain ''P1'' by_email (noon + 60000) ''INV-1'' 122 None ten_checkouts)
        = Send 429 ''Too many checkout attempts, please try again later''
   \<and> database (snd (checkout_route buyer plain ''P1'' by_email (noon + 60000) ''INV-1'' 122 None ten_checkouts))
        = shop"
proof -
  have 1: "find (\<lambda>p. id' p = ''P1'' \<and> is_active p) (products (database (started shop))) = Some ebook"
    by (simp add: started_fields shop_def ebook_def)
  have 2: "stock ebook = Some 5" by (simp add: ebook_def)
  have 3: "(0::int) < 5" by simp
  have 4: "''INV-1'' \<notin> set (map invoice_number (orders (database (started shop))))"
    by (simp add: started_fields shop_def)
  have g: "fst (rateLimit generalLimiter buyer noon (general_hits (started shop)))"
    unfolding started_fields by (rule first_request_admitted[OF limits_positive(1)])
  have c: "fst (rateLimit checkoutLimiter buyer noon (checkout_hits (started shop)))"
    unfolding started_fields by (rule first_request_admitted[OF limits_positive(2)])
  have 5: "nonempty (sanitizeEmail plain (body_customer_email by_email))"
    by (simp add: nonempty_def plain_def by_email_def)
  have 6: "\<not> nonempty (sanitizeEmail plain (body_customer_email by_phone))"
    by (simp add: nonempty_def plain_def by_phone_def)
  have p1: "find (\<lambda>p. id' p = ''P1'' \<and> is_active p) (products (database ten_checkouts)) = Some ebook"
    by (simp add: ten_checkouts_def shop_def ebook_def)
  have p4: "''INV-1'' \<notin> set (map invoice_number (orders (database ten_checkouts)))"
    by (simp add: ten_checkouts_def shop_def)
  have db: "database ten_checkouts = shop" by (simp add: ten_checkouts_def)
  note t = C4_checkout_with_email_creates_pending_order[OF 1 2 3 4, of buyer noon plain _ 122 None]
  from t[of by_email] g c 5
  have 7: "\<exists>row. fst (checkout_route buyer plain ''P1'' by_email noon ''INV-1'' 122 None (started shop))
               = Render ''checkout'' (Some row)
           \<and> database (snd (checkout_route buyer plain ''P1'' by_email noon ''INV-1'' 122 None (started shop)))
               = (database (started shop))\<lparr>orders := orders (database (started shop)) @ [row]\<rparr>
           \<and> status row = ''pending''"
    by blast
  from t[of by_phone] g c 6
  have 8: "fst (checkout_route buyer plain ''P1'' by_phone noon ''INV-1'' 122 None (started shop))
        = Send 400 ''Email is required''"
    by blast
  from C4_checkout_with_email_creates_pending_order[OF p1 2 3 p4, of buyer "noon + 60000" plain by_email 122 None] eleventh_checkout
  have "fst (checkout_route buyer plain ''P1'' by_email (noon + 60000) ''INV-1'' 122 None ten_checkouts)
        = Send 429 (message checkoutLimiter)
     \<and> database (snd (checkout_route buyer plain ''P1'' by_email (noon + 60000) ''INV-1'' 122 None ten_checkouts))
        = database ten_checkouts"
    by blast
  then have 9: "fst (checkout_route buyer plain ''P1'' by_email (noon + 60000) ''INV-1'' 122 None ten_checkouts)
        = Send 429 ''Too many checkout attempts, please try again later''"
    and 10: "database (snd (checkout_route buyer plain ''P1'' by_email (noon + 60000) ''INV-1'' 122 None ten_checkouts))
        = shop"
    unfolding checkout_message db by blast+
  from 1 2 3 4 g c 5 7 6 8 p1 p4 eleventh_checkout 9 10 show ?thesis by (intro conjI)
qed

text \<open>
  C5. Every order created by the web checkout or by the bot's \<open>createOrder\<close> has
  \<open>total_amount = product_price + unique_code\<close> with a unique code from 1 to 999, and
  the equality holds for every stored order from then on: no request and no sweep of
  the server changes it (\<open>order_ok\<close> is kept by every run). The range of the unique
  code is that of \<open>generateUniqueCode\<close> as the spec describes it.
\<close>

theorem C5_total_amount_is_price_plus_unique_code:
  "(checkout san productId body now invoiceNumber r q d = (Render page (Some row), d1) \<longrightarrow>
      orders d1 = orders d @ [row]
      \<and> total_amount row = product_price row + unique_code row
      \<and> 1 \<le> unique_code row \<and> unique_code row \<le> 999)
   \<and> (createOrder p e w now' invoiceNumber' r' q' d = (Inr row', d2) \<longrightarrow>
      orders d2 = orders d @ [row']
      \<and> total_amount row' = product_price row' + unique_code row'
      \<and> 1 \<le> unique_code row' \<and> unique_code row' \<le> 999)
   \<and> (list_all order_ok (orders d) \<and> run ops d = Inr d3 \<longrightarrow> list_all order_ok (orders d3))"
proof (intro conjI impI)
  assume "checkout san productId body now invoiceNumber r q d = (Render page (Some row), d1)"
  from checkout_created[OF this]
  show "orders d1 = orders d @ [row]" "total_amount row = product_price row + unique_code row"
    "1 \<le> unique_code row" "unique_code row \<le> 999"
    by (simp_all add: order_ok_def)
next
  assume "createOrder p e w now' invoiceNumber' r' q' d = (Inr row', d2)"
  from createOrder_created[OF this]
  show "orders d2 = orders d @ [row']" "total_amount row' = product_price row' + unique_code row'"
    "1 \<le> unique_code row'" "unique_code row' \<le> 999"
    by (simp_all add: order_ok_def)
next
  assume "list_all order_ok (orders d) \<and> run ops d = Inr d3"
  then show "list_all order_ok (orders d3)" using run_orders_ok by blast
qed

theorem C5_total_amount_is_price_plus_unique_code_witness:
  "checkout plain ''P1'' by_email noon ''INV-1'' 122 None shop = (Render ''checkout'' (Some inv1), placed)
   \<and> orders placed = orders shop @ [inv1]
   \<and> total_amount inv1 = product_price inv1 + unique_code inv1
   \<and> 1 \<le> unique_code inv1 \<and> unique_code inv1 \<le> 999
   \<and> createOrder ebook (Some ''ani@example.com'') (Some ''6281234567890'') noon ''INV-1'' 122 None shop
        = (Inr inv1_bot, shop\<lparr>orders := [inv1_bot]\<rparr>)
   \<and> total_amount inv1_bot = product_price inv1_bot + unique_code inv1_bot
   \<and> 1 \<le> unique_code inv1_bot \<and> unique_code inv1_bot \<le> 999
   \<and> list_all order_ok (orders shop)
   \<and> run [Checkout plain ''P1'' by_email noon ''INV-1'' 122 None,
           Webhook (Some ''s3cret'') (pays 50123) (noon + 600000) ''tok1''] shop = Inr paid
   \<and> list_all order_ok (orders paid)"
proof -
  have e: "list_all order_ok (orders shop)" by (simp add: shop_def)
  note t = C5_total_amount_is_price_plus_unique_code[of plain "''P1''" by_email noon "''INV-1''" 122 None shop
      "''checkout''" inv1 placed ebook "Some ''ani@example.com''" "Some ''6281234567890''" noon "''INV-1''" 122 None
      inv1_bot "shop\<lparr>orders := [inv1_bot]\<rparr>"
      "[Checkout plain ''P1'' by_email noon ''INV-1'' 122 None,
        Webhook (Some ''s3cret'') (pays 50123) (noon + 600000) ''tok1'']" paid]
  from t checkout_by_email
  have 1: "orders placed = orders shop @ [inv1]"
    and 2: "total_amount inv1 = product_price inv1 + unique_code inv1"
    and 3: "1 \<le> unique_code inv1" and 4: "unique_code inv1 \<le> 999"
    by blast+
  from t createOrder_bot
  have 5: "total_amount inv1_bot = product_price inv1_bot + unique_code inv1_bot"
    and 6: "1 \<le> unique_code inv1_bot" and 7: "unique_code inv1_bot \<le> 999"
    by blast+
  from t e run_checkout_pay have 8: "list_all order_ok (orders paid)" by blast
  from checkout_by_email 1 2 3 4 createOrder_bot 5 6 7 e run_checkout_pay 8
  show ?thesis by (intro conjI)
qed

text \<open>
  C6. The decrement of the stock on a payment match is conditioned on \<open>stock > 0\<close>:
  if no product has a negative stock, then after any series of webhook deliveries no
  product has a negative stock.
\<close>

theorem C6_stock_never_negative:
  assumes "list_all stock_nonneg (products d)" and "webhooks cs d = Inr d'"
  shows "list_all stock_nonneg (products d')"
  using assms(2,1)
proof (induction cs arbitrary: d)
  case Nil
  then show ?case by simp
next
  case (Cons c cs)
  then obtain r d1 where s: "webhook (d_apiKey c) (d_notification c) (d_now c) (d_token c) d = Inr (r, d1)"
    and w: "webhooks cs d1 = Inr d'"
    by (auto split: sum.splits)
  from Cons.IH[OF w webhook_stock_nonneg[OF s Cons.prems(2)]] show ?case .
qed

theorem C6_stock_never_negative_witness:
  "list_all stock_nonneg (products last_copy)
   \<and> map stock (products last_copy) = [Some 1]
   \<and> webhooks [\<lparr>d_apiKey = Some ''s3cret'', d_notification = pays 50123, d_now = noon + 600000, d_token = ''tokA''\<rparr>,
                \<lparr>d_apiKey = Some ''s3cret'', d_notification = pays 50123, d_now = noon + 660000, d_token = ''tokB''\<rparr>]
        last_copy = Inr last_copy_sold_twice
   \<and> map status (orders last_copy_sold_twice) = [''paid'', ''paid'']
   \<and> map stock (products last_copy_sold_twice) = [Some 0]
   \<and> list_all stock_nonneg (products last_copy_sold_twice)"
proof -
  have 1: "list_all stock_nonneg (products last_copy)"
    and 2: "map stock (products last_copy) = [Some 1]"
    by (simp_all add: last_copy_def stock_nonneg_def)
  have 3: "webhooks [\<lparr>d_apiKey = Some ''s3cret'', d_notification = pays 50123, d_now = noon + 600000, d_token = ''tokA''\<rparr>,
                \<lparr>d_apiKey = Some ''s3cret'', d_notification = pays 50123, d_now = noon + 660000, d_token = ''tokB''\<rparr>]
        last_copy = Inr last_copy_sold_twice"
    by (simp add: last_copy_first last_copy_second)
  have 4: "map status (orders last_copy_sold_twice) = [''paid'', ''paid'']"
    and 5: "map stock (products last_copy_sold_twice) = [Some 0]"
    by (simp_all add: last_copy_sold_twice_def paid_both_def inv1_def inv2_def)
  from C6_stock_never_negative[OF 1 3] have 6: "list_all stock_nonneg (products last_copy_sold_twice)" .
  from 1 2 3 4 5 6 show ?thesis by (intro conjI)
qed

text \<open>
  C7, as claimed: redeeming a token bound to an order that is not paid always yields
  the forbidden outcome. It fails once the token has expired, because the handler
  checks the expiry first: the token below belongs to a pending order, and one
  millisecond after its expiry the answer is the redirect to the expired-link page,
  not 403.
\<close>

theorem C7_expired_token_of_pending_order_gets_expired_page:
  "token_data ''tok1'' held = Some (tok1, inv1, ebook)
   \<and> status inv1 = ''pending''
   \<and> Date_parse (expires_at tok1) = Num (noon + 4200000)
   \<and> download ''tok1'' (noon + 4200001) held = (Redirect ''/expired-link'', held)"
proof -
  have 1: "status inv1 = ''pending''" by (simp add: inv1_def)
  have 2: "Date_parse (expires_at tok1) = Num (noon + 4200000)"
    by (simp add: tok1_def expires_1310 noon_def)
  from token_data_held 1 2 download_held_expired show ?thesis by (intro conjI)
qed

text \<open>
  C7, amended: redeeming a token bound to an order that is not paid never serves the
  file and never redirects to the external link, and it changes nothing in the store:
  the answer is 403 "Order is not paid yet" while the token has not expired, and the
  redirect to the expired-link page once it has.
\<close>

theorem C7_unpaid_order_is_never_served:
  assumes "token_data t d = Some (tokenData, ord, p)" and "status ord \<noteq> ''paid''"
  shows "download t now d =
           (if is_after now (Date_parse (expires_at tokenData))
            then (Redirect ''/expired-link'', d)
            else (Send 403 ''Order is not paid yet'', d))"
  using assms by (simp add: download_def)

theorem C7_unpaid_order_is_never_served_witness:
  "token_data ''tok1'' held = Some (tok1, inv1, ebook)
   \<and> status inv1 \<noteq> ''paid''
   \<and> download ''tok1'' (noon + 4200000) held = (Send 403 ''Order is not paid yet'', held)
   \<and> download ''tok1'' (noon + 4200001) held = (Redirect ''/expired-link'', held)"
proof -
  have 1: "status inv1 \<noteq> ''paid''" by (simp add: inv1_def)
  have a: "\<not> is_after (noon + 4200000) (Date_parse (expires_at tok1))"
    by (simp add: tok1_def expires_1310 is_after_def noon_def)
  have b: "is_after (noon + 4200001) (Date_parse (expires_at tok1))"
    by (simp add: tok1_def expires_1310 is_after_def noon_def)
  note t = C7_unpaid_order_is_never_served[OF token_data_held 1]
  from t[of "noon + 4200000"] a
  have 2: "download ''tok1'' (noon + 4200000) held = (Send 403 ''Order is not paid yet'', held)"
    by simp
  from t[of "noon + 4200001"] b
  have 3: "download ''tok1'' (noon + 4200001) held = (Redirect ''/expired-link'', held)"
    by simp
  from token_data_held 1 2 3 show ?thesis by (intro conjI)
qed

text \<open>
  C8, as claimed: earlier successful redemptions never prevent a further one while the
  token has not expired and its order is paid. They do through the general rate
  limiter, which counts every request of an address: after a buyer has redeemed the
  token 100 times within the window (each time served, \<open>download_count\<close> reaching 100),
  the next request, with the token still valid and the order paid, is answered 429.
\<close>

theorem C8_hundred_and_first_redemption_is_refused:
  "redeems ''tok1'' (replicate 100 (buyer, noon + 700000)) (started paid) = redeemed 100
   \<and> map download_count (download_tokens (database (redeemed 100))) = [100]
   \<and> map is_used (download_tokens (database (redeemed 100))) = [True]
   \<and> map status (orders (database (redeemed 100))) = [''paid'']
   \<and> \<not> is_after (noon + 700000) (Date_parse (expires_at tok1))
   \<and> fst (download_route buyer ''tok1'' (noon + 700000) (redeemed 100))
        = Send 429 ''Too many requests from this IP, please try again later''"
proof -
  have 1: "map download_count (download_tokens (database (redeemed 100))) = [100]"
    and 2: "map is_used (download_tokens (database (redeemed 100))) = [True]"
    and 3: "map status (orders (database (redeemed 100))) = [''paid'']"
    by (simp_all add: redeemed_def paid_def)
  from download_route_refused(1)[OF refused_after_hundred, of "''tok1''"]
  have 4: "fst (download_route buyer ''tok1'' (noon + 700000) (redeemed 100))
        = Send 429 ''Too many requests from this IP, please try again later''"
    unfolding general_message .
  from hundred_redemptions 1 2 3 tok1_unexpired_at_121140 4 show ?thesis by (intro conjI)
qed

text \<open>
  C8, amended: for every token in the table whose \<open>expires_at\<close> is the ISO text of an
  instant \<open>e\<close>, and whatever requests \<open>rs\<close> for it came before: a request that the general
  rate limiter lets through (at most 100 requests in 15 minutes from one address,
  white-listed addresses exempt) is answered with the expired page when the clock is
  past \<open>e\<close>, and is served (\<open>deliver\<close>: the external link or the file) when it is not and
  the token's order is paid, although the earlier redemptions raised \<open>download_count\<close> and
  set \<open>is_used\<close>; a request over the limit is answered 429.
\<close>

theorem C8_admitted_redemption_depends_on_expiry_only:
  assumes row: "find (\<lambda>x. token x = t) (download_tokens (database s)) = Some tokenData"
      and parsed: "Date_parse (expires_at tokenData) = Num e"
  shows "(fst (rateLimit generalLimiter ip now (general_hits (redeems t rs s))) \<and> e < now \<longrightarrow>
            fst (download_route ip t now (redeems t rs s)) = Redirect ''/expired-link'')
         \<and> (fst (rateLimit generalLimiter ip now (general_hits (redeems t rs s))) \<and> now \<le> e
              \<and> token_data t (database s) = Some (tokenData, ord, p) \<and> status ord = ''paid'' \<longrightarrow>
              fst (download_route ip t now (redeems t rs s)) = deliver p)
         \<and> (\<not> fst (rateLimit generalLimiter ip now (general_hits (redeems t rs s))) \<longrightarrow>
              fst (download_route ip t now (redeems t rs s)) = Send 429 (message generalLimiter))"
proof (intro conjI impI)
  assume "\<not> fst (rateLimit generalLimiter ip now (general_hits (redeems t rs s)))"
  then show "fst (download_route ip t now (redeems t rs s)) = Send 429 (message generalLimiter)"
    by (rule download_route_refused(1))
next
  assume a: "fst (rateLimit generalLimiter ip now (general_hits (redeems t rs s))) \<and> e < now"
  show "fst (download_route ip t now (redeems t rs s)) = Redirect ''/expired-link''"
  proof (cases "token_data t (database s)")
    case None
    with a show ?thesis
      by (simp add: download_route_admitted(1) redeems_without_row download_def)
  next
    case (Some x)
    then obtain td ord' p' where x: "token_data t (database s) = Some (td, ord', p')"
      by (cases x) auto
    from token_data_row[OF x] row have td: "td = tokenData" by simp
    from token_data_redeems[OF x] obtain td' where
      1: "token_data t (database (redeems t rs s)) = Some (td', ord', p')"
      and 2: "expires_at td' = expires_at td" by blast
    from a 1 2 td parsed show ?thesis
      by (simp add: download_route_admitted(1) download_def is_after_def)
  qed
next
  assume a: "fst (rateLimit generalLimiter ip now (general_hits (redeems t rs s))) \<and> now \<le> e
              \<and> token_data t (database s) = Some (tokenData, ord, p) \<and> status ord = ''paid''"
  then have x: "token_data t (database s) = Some (tokenData, ord, p)" by simp
  from token_data_redeems[OF x] obtain td' where
    1: "token_data t (database (redeems t rs s)) = Some (td', ord, p)"
    and 2: "expires_at td' = expires_at tokenData" by blast
  from a 1 2 parsed show "fst (download_route ip t now (redeems t rs s)) = deliver p"
    by (simp add: download_route_admitted(1) download_def is_after_def)
qed

theorem C8_admitted_redemption_depends_on_expiry_only_witness:
  "find (\<lambda>x. token x = ''tok1'') (download_tokens (database (started paid))) = Some tok1
   \<and> Date_parse (expires_at tok1) = Num (noon + 4200000)
   \<and> redeems ''tok1'' (replicate 2 (buyer, noon + 700000)) (started paid) = redeemed 2
   \<and> map download_count (download_tokens (database (redeemed 2))) = [2]
   \<and> map is_used (download_tokens (database (redeemed 2))) = [True]
   \<and> fst (rateLimit generalLimiter buyer (noon + 4200001) (general_hits (redeemed 2)))
   \<and> noon + 4200000 < noon + 4200001
   \<and> fst (download_route buyer ''tok1'' (noon + 4200001) (redeemed 2)) = Redirect ''/expired-link''
   \<and> fst (rateLimit generalLimiter buyer (noon + 4200000) (general_hits (redeemed 2)))
   \<and> noon + 4200000 \<le> noon + 4200000
   \<and> token_data ''tok1'' (database (started paid))
     = Some (tok1, inv1\<lparr>status := ''paid'', paid_at := Some ''2025-01-01 12:10:00''\<rparr>, ebook\<lparr>stock := Some 4\<rparr>)
   \<and> status (inv1\<lparr>status := ''paid'', paid_at := Some ''2025-01-01 12:10:00''\<rparr>) = ''paid''
   \<and> fst (download_route buyer ''tok1'' (noon + 4200000) (redeemed 2))
        = Download ''/uploads/ebook.pdf'' ''E-Book''
   \<and> redeems ''tok1'' (replicate 100 (buyer, noon + 700000)) (started paid) = redeemed 100
   \<and> \<not> fst (rateLimit generalLimiter buyer (noon + 700000) (general_hits (redeemed 100)))
   \<and> fst (download_route buyer ''tok1'' (noon + 700000) (redeemed 100))
        = Send 429 ''Too many requests from this IP, please try again later''"
proof -
  have td: "token_data ''tok1'' (database (started paid))
     = Some (tok1, inv1\<lparr>status := ''paid'', paid_at := Some ''2025-01-01 12:10:00''\<rparr>, ebook\<lparr>stock := Some 4\<rparr>)"
    unfolding started_fields by (rule token_data_paid)
  have 0: "find (\<lambda>x. token x = ''tok1'') (download_tokens (database (started paid))) = Some tok1"
    by (rule token_data_row[OF td])
  have 1: "Date_parse (expires_at tok1) = Num (noon + 4200000)"
    by (simp add: tok1_def expires_1310 noon_def)
  have c: "map download_count (download_tokens (database (redeemed 2))) = [2]"
    and u: "map is_used (download_tokens (database (redeemed 2))) = [True]"
    by (simp_all add: redeemed_def paid_def)
  have 2: "noon + 4200000 < noon + 4200001" by simp
  have 3: "noon + 4200000 \<le> noon + 4200000" by simp
  have 4: "status (inv1\<lparr>status := ''paid'', paid_at := Some ''2025-01-01 12:10:00''\<rparr>) = ''paid''"
    by simp
  have 5: "deliver (ebook\<lparr>stock := Some 4\<rparr>) = Download ''/uploads/ebook.pdf'' ''E-Book''"
    by (simp add: deliver_def ebook_def)
  note t = C8_admitted_redemption_depends_on_expiry_only[OF 0 1, of buyer _ "replicate 2 (buyer, noon + 700000)"
      "inv1\<lparr>status := ''paid'', paid_at := Some ''2025-01-01 12:10:00''\<rparr>" "ebook\<lparr>stock := Some 4\<rparr>",
      unfolded two_redemptions]
  from t[of "noon + 4200001"] admitted_after_the_window(2) 2
  have 6: "fst (download_route buyer ''tok1'' (noon + 4200001) (redeemed 2)) = Redirect ''/expired-link''"
    by blast
  from t[of "noon + 4200000"] admitted_after_the_window(1) 3 td 4
  have "fst (download_route buyer ''tok1'' (noon + 4200000) (redeemed 2)) = deliver (ebook\<lparr>stock := Some 4\<rparr>)"
    by blast
  then have 7: "fst (download_route buyer ''tok1'' (noon + 4200000) (redeemed 2))
        = Download ''/uploads/ebook.pdf'' ''E-Book''"
    unfolding 5 .
  from C8_admitted_redemption_depends_on_expiry_only[OF 0 1, of buyer "noon + 700000" "replicate 100 (buyer, noon + 700000)",
      unfolded hundred_redemptions] refused_after_hundred
  have "fst (download_route buyer ''tok1'' (noon + 700000) (redeemed 100)) = Send 429 (message generalLimiter)"
    by blast
  then have 8: "fst (download_route buyer ''tok1'' (noon + 700000) (redeemed 100))
        = Send 429 ''Too many requests from this IP, please try again later''"
    unfolding general_message .
  from 0 1 two_redemptions c u admitted_after_the_window(2) 2 6 admitted_after_the_window(1) 3 td 4 7
    hundred_redemptions refused_after_hundred 8
  show ?thesis by (intro conjI)
qed

text \<open>
  C9 says that an authenticated request from which no amount is extracted is
  acknowledged with a success response. The extraction does try \<open>amountDetected\<close>,
  then \<open>amount\<close>, then the pattern on \<open>text\<close> (\<open>extract_amount_order\<close>), and an amount of
  0 or \<open>NaN\<close> is acknowledged and changes nothing (\<open>webhook_no_amount\<close>, \<open>webhook_NaN\<close>).
  But for the body \<^verbatim>\<open>{"text": 12345}\<close> the handler calls \<open>match\<close> on a number: a
  \<open>TypeError\<close> that nothing catches, and the request gets no answer.
\<close>

theorem C9_numeric_text_is_not_acknowledged:
  "\<not> rejected (getSettings placed) (Some ''s3cret'')
   \<and> truthy (text_field numeric_text)
   \<and> extract_amount numeric_text = Inl TypeError
   \<and> webhook (Some ''s3cret'') numeric_text (noon + 600000) ''tok1'' placed = Inl TypeError"
proof -
  have 1: "\<not> rejected (getSettings placed) (Some ''s3cret'')"
    by (rule shop_settings(1)[OF settings_of_examples(1)])
  have 2: "truthy (text_field numeric_text)" by (simp add: numeric_text_def)
  from webhook_throws[OF 1 numeric_text_throws]
  have 3: "webhook (Some ''s3cret'') numeric_text (noon + 600000) ''tok1'' placed = Inl TypeError" .
  from 1 2 numeric_text_throws 3 show ?thesis by (intro conjI)
qed



end
